theory Spec2Isabelle
  imports Complex_Main "HOL-Library.Log_Nat" "HOL-Library.Code_Target_Nat"
begin

section \<open>Python values and floating-point arithmetic\<close>

text \<open>
  The pipeline \<^verbatim>\<open>src/dags/ml_retrain_pipeline.py\<close> computes with Python floats, which
  are IEEE-754 binary64 numbers. A finite float is modelled by the rational number it
  denotes, and every arithmetic operation rounds its exact result to the nearest
  binary64 number, ties to the even significand. Infinities, NaN, overflow and
  subnormal numbers are left out: every number the pipeline computes is zero or lies
  between \<open>2 ^ -60\<close> and \<open>4\<close>.
\<close>

definition round_half_even :: "rat \<Rightarrow> int" where
  "round_half_even x =
     (let f = \<lfloor>x\<rfloor>; d = x - of_int f
      in if d < 1 / 2 then f
         else if 1 / 2 < d then f + 1
         else if even f then f else f + 1)"

definition pow2 :: "int \<Rightarrow> rat" where
  "pow2 e = (if 0 \<le> e then 2 ^ nat e else 1 / 2 ^ nat (- e))"

text \<open>The binary exponent of a positive number: the \<open>e\<close> with \<open>2 ^ e \<le> x < 2 ^ (e + 1)\<close>.\<close>

definition ilog2 :: "rat \<Rightarrow> int" where
  "ilog2 x = (if 1 \<le> x then bitlen \<lfloor>x\<rfloor> - 1 else - bitlen (\<lceil>1 / x\<rceil> - 1))"

text \<open>Rounding to binary64: a significand of 53 bits.\<close>

definition fl :: "rat \<Rightarrow> rat" where
  "fl x = (if x = 0 then 0
           else let q = pow2 (ilog2 \<bar>x\<bar> - 52)
                in sgn x * of_int (round_half_even (\<bar>x\<bar> / q)) * q)"

text \<open>
  What a callable can raise: the four exceptions of the language that the bodies can
  run into, and an exception that is not an instance of \<^verbatim>\<open>Exception\<close> (such as
  \<^verbatim>\<open>KeyboardInterrupt\<close> or \<^verbatim>\<open>SystemExit\<close>), with its text.
\<close>

datatype error = AttributeError | TypeError | KeyError | ZeroDivisionError | BaseException string

definition fadd :: "rat \<Rightarrow> rat \<Rightarrow> rat" where
  "fadd x y = fl (x + y)"

definition fsub :: "rat \<Rightarrow> rat \<Rightarrow> rat" where
  "fsub x y = fl (x - y)"

definition fmul :: "rat \<Rightarrow> rat \<Rightarrow> rat" where
  "fmul x y = fl (x * y)"

definition fdiv :: "rat \<Rightarrow> rat \<Rightarrow> error + rat" where
  "fdiv x y = (if y = 0 then Inl ZeroDivisionError else Inr (fl (x / y)))"

text \<open>
  \<^verbatim>\<open>round(x, n)\<close> on a float: the exact value of \<open>x\<close> is rounded to \<open>n\<close> decimal
  digits, ties to even, and the decimal result is converted back to the nearest float.
\<close>

definition py_round :: "rat \<Rightarrow> nat \<Rightarrow> rat" where
  "py_round x n = fl (of_int (round_half_even (x * 10 ^ n)) / 10 ^ n)"

text \<open>
  \<^verbatim>\<open>random.random()\<close> returns \<open>k / 2 ^ 53\<close> for an integer \<open>0 \<le> k < 2 ^ 53\<close>; the
  draw \<open>k\<close> is an input of the model. \<^verbatim>\<open>random.uniform(a, b)\<close> is
  \<^verbatim>\<open>a + (b - a) * self.random()\<close>.
\<close>

definition random :: "nat \<Rightarrow> rat" where
  "random k = of_nat k / 2 ^ 53"

definition uniform :: "rat \<Rightarrow> rat \<Rightarrow> nat \<Rightarrow> rat" where
  "uniform a b k = fadd a (fmul (fsub b a) (random k))"

text \<open>
  The values that travel through XCom: \<^verbatim>\<open>None\<close>, numbers, strings and dictionaries
  with string keys (in insertion order).
\<close>

datatype pyval =
    PNone
  | PInt int
  | PFloat rat
  | PStr string
  | PDict "(string \<times> pyval) list"

text \<open>Truth value of an object, as \<^verbatim>\<open>not x\<close> tests it.\<close>

fun truthy :: "pyval \<Rightarrow> bool" where
  "truthy PNone = False"
| "truthy (PInt i) = (i \<noteq> 0)"
| "truthy (PFloat x) = (x \<noteq> 0)"
| "truthy (PStr s) = (s \<noteq> [])"
| "truthy (PDict kvs) = (kvs \<noteq> [])"

text \<open>\<^verbatim>\<open>d.get(k, default)\<close>: only a dictionary has the method.\<close>

fun py_get :: "pyval \<Rightarrow> string \<Rightarrow> pyval \<Rightarrow> error + pyval" where
  "py_get (PDict kvs) k d = Inr (case map_of kvs k of None \<Rightarrow> d | Some v \<Rightarrow> v)"
| "py_get _ k d = Inl AttributeError"

text \<open>\<^verbatim>\<open>d[k]\<close> with a string key.\<close>

fun py_getitem :: "pyval \<Rightarrow> string \<Rightarrow> error + pyval" where
  "py_getitem (PDict kvs) k = (case map_of kvs k of None \<Rightarrow> Inl KeyError | Some v \<Rightarrow> Inr v)"
| "py_getitem _ k = Inl TypeError"

text \<open>\<^verbatim>\<open>a >= b\<close>: numbers compare by their exact values, anything else raises.\<close>

fun py_ge :: "pyval \<Rightarrow> pyval \<Rightarrow> error + bool" where
  "py_ge (PInt i) (PInt j) = Inr (j \<le> i)"
| "py_ge (PInt i) (PFloat y) = Inr (y \<le> of_int i)"
| "py_ge (PFloat x) (PInt j) = Inr (of_int j \<le> x)"
| "py_ge (PFloat x) (PFloat y) = Inr (y \<le> x)"
| "py_ge _ _ = Inl TypeError"

section \<open>Configuration, the XCom store and the output\<close>

text \<open>
  The module reads three environment variables once. \<^verbatim>\<open>MODEL_VERSION\<close> has a default
  and is always a string; the two Telegram variables are \<^verbatim>\<open>None\<close> when unset.
\<close>

record config =
  MODEL_VERSION :: string
  TELEGRAM_TOKEN :: "string option"
  TELEGRAM_CHAT_ID :: "string option"

text \<open>The float literal \<^verbatim>\<open>0.8\<close>.\<close>

definition ACCURACY_THRESHOLD :: rat where
  "ACCURACY_THRESHOLD = fl (8 / 10)"

text \<open>\<^verbatim>\<open>not s\<close> for an optional string: true for \<^verbatim>\<open>None\<close> and for the empty string.\<close>

fun not_configured :: "string option \<Rightarrow> bool" where
  "not_configured None = True"
| "not_configured (Some s) = (s = [])"

text \<open>The value of \<^verbatim>\<open>os.getenv(name)\<close> as a Python object.\<close>

fun py_of_env :: "string option \<Rightarrow> pyval" where
  "py_of_env None = PNone"
| "py_of_env (Some s) = PStr s"

text \<open>The store maps a producing task id and a key to a value.\<close>

type_synonym xcom = "string \<times> string \<rightharpoonup> pyval"

definition xcom_pull :: "xcom \<Rightarrow> string \<Rightarrow> string \<Rightarrow> pyval" where
  "xcom_pull st task_ids key = (case st (task_ids, key) of None \<Rightarrow> PNone | Some v \<Rightarrow> v)"

definition xcom_push :: "xcom \<Rightarrow> string \<Rightarrow> string \<Rightarrow> pyval \<Rightarrow> xcom" where
  "xcom_push st ti key v = st((ti, key) \<mapsto> v)"

text \<open>
  One constructor per \<^verbatim>\<open>print\<close> statement of the source, in source order, with the
  values its f-string interpolates.
\<close>

datatype line =
    TrainStart string | LoadingData | Preprocessing | Training | TrainDone string
  | EvalStart string | MetricsLine pyval
  | CheckLine pyval rat | DeployAllowed rat | DeployRejected rat
  | DeployStart string | DeployMetrics pyval pyval | LoadingArtifacts | UpdatingConfig
  | DeployDone string
  | SkipLine string | SkipReason pyval rat | NeedsWork
  | NoDeployInfo | CredsNotConfigured | SimulatedNotification string
  | SentOk | SendError string | SendException string

text \<open>What a task does to the outside: it prints, or it posts (url, JSON body, timeout).\<close>

datatype event = Print line | Post string "(string \<times> pyval) list" nat

text \<open>
  What the messaging endpoint makes \<^verbatim>\<open>requests.post\<close> do: return a response (status
  code, text) or raise a transport exception, an instance of \<^verbatim>\<open>Exception\<close> (with its
  text).
\<close>

datatype transport = Response int string | Raises string

text \<open>
  What the call does: what the endpoint makes it do, or it is interrupted by an
  exception that is not an instance of \<^verbatim>\<open>Exception\<close>, which \<^verbatim>\<open>except Exception\<close> does
  not catch.
\<close>

datatype http_outcome = Transport transport | Interrupted string

text \<open>A task callable returns or raises, leaves a store and a list of events.\<close>

type_synonym result = "(error + pyval) \<times> xcom \<times> event list"

section \<open>The task callables\<close>

definition train_model :: "config \<Rightarrow> xcom \<Rightarrow> result" where
  "train_model cfg st =
     (Inr (PDict [(''status'', PStr ''trained''), (''version'', PStr (MODEL_VERSION cfg))]),
      st,
      [Print (TrainStart (MODEL_VERSION cfg)), Print LoadingData, Print Preprocessing,
       Print Training, Print (TrainDone (MODEL_VERSION cfg))])"

text \<open>
  \<open>ti\<close> is the id of the running task instance; \<open>k1\<close>, \<open>k2\<close>, \<open>k3\<close> are the three
  draws of the random generator.
\<close>

definition evaluate_model :: "config \<Rightarrow> string \<Rightarrow> nat \<Rightarrow> nat \<Rightarrow> nat \<Rightarrow> xcom \<Rightarrow> result" where
  "evaluate_model cfg ti k1 k2 k3 st =
     (let accuracy = uniform (fl (75 / 100)) (fl (95 / 100)) k1;
          precision = uniform (fl (70 / 100)) (fl (92 / 100)) k2;
          recall = uniform (fl (72 / 100)) (fl (94 / 100)) k3
      in case fdiv (fmul 2 (fmul precision recall)) (fadd precision recall) of
           Inl e \<Rightarrow> (Inl e, st, [Print (EvalStart (MODEL_VERSION cfg))])
         | Inr f1_score \<Rightarrow>
             (let metrics = PDict
                    [(''accuracy'', PFloat (py_round accuracy 4)),
                     (''precision'', PFloat (py_round precision 4)),
                     (''recall'', PFloat (py_round recall 4)),
                     (''f1_score'', PFloat (py_round f1_score 4))]
              in (Inr metrics,
                  xcom_push st ti ''metrics'' metrics,
                  [Print (EvalStart (MODEL_VERSION cfg)), Print (MetricsLine metrics)])))"

definition check_metrics :: "xcom \<Rightarrow> result" where
  "check_metrics st =
     (let metrics = xcom_pull st ''evaluate_model'' ''metrics''
      in case py_get metrics ''accuracy'' (PInt 0) of
           Inl e \<Rightarrow> (Inl e, st, [])
         | Inr accuracy \<Rightarrow>
             (case py_ge accuracy (PFloat ACCURACY_THRESHOLD) of
                Inl e \<Rightarrow> (Inl e, st, [Print (CheckLine accuracy ACCURACY_THRESHOLD)])
              | Inr True \<Rightarrow>
                  (Inr (PStr ''deploy_model''), st,
                   [Print (CheckLine accuracy ACCURACY_THRESHOLD),
                    Print (DeployAllowed ACCURACY_THRESHOLD)])
              | Inr False \<Rightarrow>
                  (Inr (PStr ''skip_deploy''), st,
                   [Print (CheckLine accuracy ACCURACY_THRESHOLD),
                    Print (DeployRejected ACCURACY_THRESHOLD)])))"

text \<open>\<open>now\<close> is \<^verbatim>\<open>datetime.now().isoformat()\<close>, an input of the model.\<close>

definition deploy_model :: "config \<Rightarrow> string \<Rightarrow> string \<Rightarrow> xcom \<Rightarrow> result" where
  "deploy_model cfg ti now st =
     (let metrics = xcom_pull st ''evaluate_model'' ''metrics''
      in case py_getitem metrics ''accuracy'' of
           Inl e \<Rightarrow> (Inl e, st, [Print (DeployStart (MODEL_VERSION cfg))])
         | Inr acc \<Rightarrow>
             (case py_getitem metrics ''f1_score'' of
                Inl e \<Rightarrow> (Inl e, st, [Print (DeployStart (MODEL_VERSION cfg))])
              | Inr f1 \<Rightarrow>
                  (Inr (PDict [(''status'', PStr ''deployed''),
                               (''version'', PStr (MODEL_VERSION cfg))]),
                   xcom_push st ti ''deploy_info''
                     (PDict [(''version'', PStr (MODEL_VERSION cfg)),
                             (''metrics'', metrics),
                             (''timestamp'', PStr now)]),
                   [Print (DeployStart (MODEL_VERSION cfg)), Print (DeployMetrics acc f1),
                    Print LoadingArtifacts, Print UpdatingConfig,
                    Print (DeployDone (MODEL_VERSION cfg))])))"

definition skip_deploy :: "config \<Rightarrow> xcom \<Rightarrow> result" where
  "skip_deploy cfg st =
     (let metrics = xcom_pull st ''evaluate_model'' ''metrics''
      in case py_getitem metrics ''accuracy'' of
           Inl e \<Rightarrow> (Inl e, st, [Print (SkipLine (MODEL_VERSION cfg))])
         | Inr acc \<Rightarrow>
             (Inr (PDict [(''status'', PStr ''skipped''),
                          (''reason'', PStr ''metrics_below_threshold'')]),
              st,
              [Print (SkipLine (MODEL_VERSION cfg)), Print (SkipReason acc ACCURACY_THRESHOLD),
               Print NeedsWork]))"

text \<open>
  An interpolated value in an f-string: a string stands for itself, \<^verbatim>\<open>None\<close> prints
  as \<open>None\<close>; \<open>fmt\<close> is Python's formatting of numbers and dictionaries, a parameter
  of the model.
\<close>

fun py_format :: "(pyval \<Rightarrow> string) \<Rightarrow> pyval \<Rightarrow> string" where
  "py_format fmt (PStr s) = s"
| "py_format fmt PNone = ''None''"
| "py_format fmt v = fmt v"

text \<open>The text of the notification.\<close>

definition message :: "(pyval \<Rightarrow> string) \<Rightarrow> string \<Rightarrow> pyval \<Rightarrow> pyval \<Rightarrow> pyval \<Rightarrow> pyval \<Rightarrow> pyval \<Rightarrow> string" where
  "message fmt version a p r f ts =
     ''*[DEPLOY] Model '' @ version @ ''*'' @ [CHR 0x0A, CHR 0x0A]
     @ ''Metrics:'' @ [CHR 0x0A]
     @ ''  - Accuracy: `'' @ py_format fmt a @ ''`'' @ [CHR 0x0A]
     @ ''  - Precision: `'' @ py_format fmt p @ ''`'' @ [CHR 0x0A]
     @ ''  - Recall: `'' @ py_format fmt r @ ''`'' @ [CHR 0x0A]
     @ ''  - F1-score: `'' @ py_format fmt f @ ''`'' @ [CHR 0x0A, CHR 0x0A]
     @ ''Timestamp: '' @ py_format fmt ts @ [CHR 0x0A]
     @ ''Status: OK''"

text \<open>The part of the notifier after both guards: format, post once, log the outcome.\<close>

definition post_notification ::
  "string \<Rightarrow> (pyval \<Rightarrow> string) \<Rightarrow> http_outcome \<Rightarrow> string option \<Rightarrow> string option \<Rightarrow> pyval
     \<Rightarrow> xcom \<Rightarrow> result" where
  "post_notification version fmt resp token chat deploy_info st =
     (case py_get deploy_info ''metrics'' (PDict []) of
        Inl e \<Rightarrow> (Inl e, st, [])
      | Inr metrics \<Rightarrow>
     (case py_get metrics ''accuracy'' (PStr ''N/A'') of
        Inl e \<Rightarrow> (Inl e, st, [])
      | Inr a \<Rightarrow>
     (case py_get metrics ''precision'' (PStr ''N/A'') of
        Inl e \<Rightarrow> (Inl e, st, [])
      | Inr p \<Rightarrow>
     (case py_get metrics ''recall'' (PStr ''N/A'') of
        Inl e \<Rightarrow> (Inl e, st, [])
      | Inr r \<Rightarrow>
     (case py_get metrics ''f1_score'' (PStr ''N/A'') of
        Inl e \<Rightarrow> (Inl e, st, [])
      | Inr f \<Rightarrow>
     (case py_get deploy_info ''timestamp'' (PStr ''N/A'') of
        Inl e \<Rightarrow> (Inl e, st, [])
      | Inr ts \<Rightarrow>
         (let url = ''https://api.telegram.org/bot'' @ py_format fmt (py_of_env token) @ ''/sendMessage'';
              payload = [(''chat_id'', py_of_env chat),
                         (''text'', PStr (message fmt version a p r f ts)),
                         (''parse_mode'', PStr ''Markdown'')]
          in case resp of
               Transport (Response status_code text) \<Rightarrow>
                 if status_code = 200
                 then (Inr PNone, st, [Post url payload 10, Print SentOk])
                 else (Inr PNone, st, [Post url payload 10, Print (SendError text)])
             | Transport (Raises e) \<Rightarrow>
                 (Inr PNone, st, [Post url payload 10, Print (SendException e)])
             | Interrupted b \<Rightarrow>
                 (Inl (BaseException b), st, [Post url payload 10]))))))))"

definition send_telegram_notification ::
  "config \<Rightarrow> (pyval \<Rightarrow> string) \<Rightarrow> http_outcome \<Rightarrow> xcom \<Rightarrow> result" where
  "send_telegram_notification cfg fmt resp st =
     (let deploy_info = xcom_pull st ''deploy_model'' ''deploy_info''
      in if \<not> truthy deploy_info then (Inr PNone, st, [Print NoDeployInfo])
         else if not_configured (TELEGRAM_TOKEN cfg) \<or> not_configured (TELEGRAM_CHAT_ID cfg)
         then (Inr PNone, st,
               [Print CredsNotConfigured, Print (SimulatedNotification (MODEL_VERSION cfg))])
         else post_notification (MODEL_VERSION cfg) fmt resp
                (TELEGRAM_TOKEN cfg) (TELEGRAM_CHAT_ID cfg) deploy_info st)"

section \<open>The DAG\<close>

text \<open>
  The tasks, named as the variables of the \<^verbatim>\<open>with DAG(...)\<close> block, their task ids,
  operators and trigger rules, and the dependencies of the last four lines of the file.
\<close>

datatype task = train | evaluate | check | deploy | skip | notify | join

fun task_id :: "task \<Rightarrow> string" where
  "task_id train = ''train_model''"
| "task_id evaluate = ''evaluate_model''"
| "task_id check = ''check_metrics''"
| "task_id deploy = ''deploy_model''"
| "task_id skip = ''skip_deploy''"
| "task_id notify = ''notify_success''"
| "task_id join = ''join''"

datatype operator = PythonOperator | BranchPythonOperator | EmptyOperator

fun operator_of :: "task \<Rightarrow> operator" where
  "operator_of check = BranchPythonOperator"
| "operator_of join = EmptyOperator"
| "operator_of _ = PythonOperator"

datatype trigger_rule = all_success | none_failed_min_one_success

fun trigger_rule_of :: "task \<Rightarrow> trigger_rule" where
  "trigger_rule_of notify = none_failed_min_one_success"
| "trigger_rule_of join = none_failed_min_one_success"
| "trigger_rule_of _ = all_success"

definition dependencies :: "(task \<times> task) list" where
  "dependencies =
     [(train, evaluate), (evaluate, check),
      (check, deploy), (deploy, notify),
      (check, skip), (skip, join),
      (notify, join)]"

definition upstream :: "task \<Rightarrow> task list" where
  "upstream t = map fst (filter (\<lambda>e. snd e = t) dependencies)"

definition downstream :: "task \<Rightarrow> task list" where
  "downstream t = map snd (filter (\<lambda>e. fst e = t) dependencies)"

text \<open>
  What the run is given from outside: the three random draws, the clock, the formatting
  of values and what the messaging endpoint does. A run is not interrupted from outside.
\<close>

record env =
  draw1 :: nat
  draw2 :: nat
  draw3 :: nat
  clock :: string
  format :: "pyval \<Rightarrow> string"
  endpoint :: transport

text \<open>The \<^verbatim>\<open>python_callable\<close> of each operator; the empty operator does nothing.\<close>

fun callable :: "config \<Rightarrow> env \<Rightarrow> task \<Rightarrow> xcom \<Rightarrow> result" where
  "callable cfg ev train st = train_model cfg st"
| "callable cfg ev evaluate st =
     evaluate_model cfg (task_id evaluate) (draw1 ev) (draw2 ev) (draw3 ev) st"
| "callable cfg ev check st = check_metrics st"
| "callable cfg ev deploy st = deploy_model cfg (task_id deploy) (clock ev) st"
| "callable cfg ev skip st = skip_deploy cfg st"
| "callable cfg ev notify st =
     send_telegram_notification cfg (format ev) (Transport (endpoint ev)) st"
| "callable cfg ev join st = (Inr PNone, st, [])"

section \<open>The scheduler\<close>

text \<open>
  The scheduler belongs to the orchestration framework, not to the repository. Its
  rules are the framework's documented ones, for the two trigger rules and the branch
  operator this DAG uses:
  \<^item> \<open>all_success\<close> (the default): the task runs when every upstream task succeeded; a
    failed upstream makes it \<open>upstream_failed\<close>, a skipped one makes it \<open>skipped\<close>;
  \<^item> \<open>none_failed_min_one_success\<close>: the task runs when no upstream task failed and
    at least one succeeded; with no failure and no success it is \<open>skipped\<close>;
  \<^item> a branch operator that returns a task id marks every other directly downstream
    task \<open>skipped\<close>.
  A task whose callable raises is \<open>failed\<close>; the one retry of \<^verbatim>\<open>default_args\<close> is
  left out, since no callable raises in a run of this DAG. Tasks are taken in an order
  that respects the dependencies.
\<close>

datatype state = success | failed | skipped | upstream_failed

fun trigger :: "trigger_rule \<Rightarrow> state list \<Rightarrow> state option" where
  "trigger all_success ups =
     (if failed \<in> set ups \<or> upstream_failed \<in> set ups then Some upstream_failed
      else if skipped \<in> set ups then Some skipped
      else None)"
| "trigger none_failed_min_one_success ups =
     (if failed \<in> set ups \<or> upstream_failed \<in> set ups then Some upstream_failed
      else if success \<notin> set ups then Some skipped
      else None)"

text \<open>
  A run: the store, the state of every task decided so far (in the order decided) and
  the events, each with the task that produced it.
\<close>

record run =
  store :: xcom
  states :: "(task \<times> state) list"
  events :: "(task \<times> event) list"

definition branch_skips :: "task \<Rightarrow> pyval \<Rightarrow> (task \<times> state) list" where
  "branch_skips t v =
     (if operator_of t = BranchPythonOperator
      then map (\<lambda>d. (d, skipped)) (filter (\<lambda>d. PStr (task_id d) \<noteq> v) (downstream t))
      else [])"

definition execute :: "config \<Rightarrow> env \<Rightarrow> task \<Rightarrow> run \<Rightarrow> run" where
  "execute cfg ev t r =
     (case callable cfg ev t (store r) of
        (Inl e, st, out) \<Rightarrow>
          \<lparr>store = st, states = states r @ [(t, failed)],
           events = events r @ map (Pair t) out\<rparr>
      | (Inr v, st, out) \<Rightarrow>
          \<lparr>store = st, states = states r @ [(t, success)] @ branch_skips t v,
           events = events r @ map (Pair t) out\<rparr>)"

definition schedule :: "config \<Rightarrow> env \<Rightarrow> run \<Rightarrow> task \<Rightarrow> run" where
  "schedule cfg ev r t =
     (case map_of (states r) t of
        Some s \<Rightarrow> r
      | None \<Rightarrow>
          (case trigger (trigger_rule_of t) (List.map_filter (map_of (states r)) (upstream t)) of
             Some s \<Rightarrow> r\<lparr>states := states r @ [(t, s)]\<rparr>
           | None \<Rightarrow> execute cfg ev t r))"

definition dag_run :: "config \<Rightarrow> env \<Rightarrow> run" where
  "dag_run cfg ev =
     foldl (schedule cfg ev) \<lparr>store = Map.empty, states = [], events = []\<rparr>
       [train, evaluate, check, deploy, skip, notify, join]"

section \<open>Auxiliary definitions for the statements\<close>

text \<open>The numeric value of a Python number.\<close>

fun py_number :: "pyval \<Rightarrow> rat option" where
  "py_number (PInt i) = Some (of_int i)"
| "py_number (PFloat x) = Some x"
| "py_number _ = None"

text \<open>
  The F1 score as the specification words it: from precision and recall already
  rounded to 4 digits, \<^verbatim>\<open>round(2*round(p,4)*round(r,4)/(round(p,4)+round(r,4)), 4)\<close>.
\<close>

definition spec_f1_score :: "rat \<Rightarrow> rat \<Rightarrow> error + rat" where
  "spec_f1_score p r =
     (let p4 = py_round p 4; r4 = py_round r 4
      in case fdiv (fmul (fmul 2 p4) r4) (fadd p4 r4) of
           Inl e \<Rightarrow> Inl e
         | Inr f \<Rightarrow> Inr (py_round f 4))"

text \<open>Example inputs: configurations, a formatter, and two environments.\<close>

definition example_config :: config where
  "example_config =
     \<lparr>MODEL_VERSION = ''v1.0.0'', TELEGRAM_TOKEN = Some ''123:abc'',
      TELEGRAM_CHAT_ID = Some ''42''\<rparr>"

definition unset_config :: config where
  "unset_config =
     \<lparr>MODEL_VERSION = ''v1.0.0'', TELEGRAM_TOKEN = None, TELEGRAM_CHAT_ID = None\<rparr>"

definition empty_token_config :: config where
  "empty_token_config =
     \<lparr>MODEL_VERSION = ''v1.0.0'', TELEGRAM_TOKEN = Some [], TELEGRAM_CHAT_ID = Some ''42''\<rparr>"

definition example_format :: "pyval \<Rightarrow> string" where
  "example_format v = ''?''"

text \<open>Draws that give the accuracy \<open>0.7562\<close>, below the threshold.\<close>

definition skip_env :: env where
  "skip_env =
     \<lparr>draw1 = 2 ^ 48, draw2 = 2 ^ 49, draw3 = 11 * 2 ^ 49, clock = ''2025-01-01T00:00:00'',
      format = example_format, endpoint = Response 200 ''ok''\<rparr>"

text \<open>Draws that give the accuracy \<open>0.8\<close>, the threshold itself.\<close>

definition deploy_env :: env where
  "deploy_env =
     \<lparr>draw1 = 2 ^ 51, draw2 = 2 ^ 49, draw3 = 11 * 2 ^ 49, clock = ''2025-01-01T00:00:00'',
      format = example_format, endpoint = Response 500 ''Internal Server Error''\<rparr>"

text \<open>A metrics record, and the store after the evaluator and the deployer wrote to it.\<close>

definition example_metrics :: pyval where
  "example_metrics =
     PDict [(''accuracy'', PFloat (fl (92 / 100))), (''precision'', PFloat (fl (85 / 100))),
            (''recall'', PFloat (fl (88 / 100))), (''f1_score'', PFloat (fl (865 / 1000)))]"

definition evaluated_store :: xcom where
  "evaluated_store = xcom_push Map.empty ''evaluate_model'' ''metrics'' example_metrics"

definition deployed_store :: xcom where
  "deployed_store =
     xcom_push evaluated_store ''deploy_model'' ''deploy_info''
       (PDict [(''version'', PStr ''v1.0.0''), (''metrics'', example_metrics),
               (''timestamp'', PStr ''2025-01-01T00:00:00'')])"

section \<open>Properties of the floating-point model\<close>

lemma round_half_even_bounds:
  "x - 1 / 2 \<le> of_int (round_half_even x) \<and> of_int (round_half_even x) \<le> x + 1 / 2"
proof -
  have "of_int \<lfloor>x\<rfloor> \<le> x" "x < of_int \<lfloor>x\<rfloor> + 1" by linarith+
  then show ?thesis
    unfolding round_half_even_def Let_def
    by (simp only: of_int_add of_int_1 split: if_split) linarith
qed

lemma round_half_even_of_int [simp]: "round_half_even (of_int n) = n"
  by (simp add: round_half_even_def)

lemma round_half_even_mono:
  assumes "x \<le> y" shows "round_half_even x \<le> round_half_even y"
proof (cases "x = y")
  case True then show ?thesis by simp
next
  case False
  with assms have lt: "x < y" by simp
  show ?thesis
  proof (rule ccontr)
    assume "\<not> ?thesis"
    then have "round_half_even y + 1 \<le> round_half_even x" by simp
    then have "(of_int (round_half_even y) :: rat) + 1 \<le> of_int (round_half_even x)"
      by (metis of_int_1 of_int_add of_int_le_iff)
    moreover have "of_int (round_half_even x) \<le> x + 1 / 2"
      using round_half_even_bounds by blast
    moreover have "y - 1 / 2 \<le> of_int (round_half_even y)"
      using round_half_even_bounds by blast
    ultimately show False using lt by linarith
  qed
qed

lemma pow2_powi: "pow2 e = 2 powi e"
  by (simp add: pow2_def power_int_def field_simps)

lemma pow2_pos [simp]: "0 < pow2 e"
  by (simp add: pow2_powi)

lemma pow2_add: "pow2 (a + b) = pow2 a * pow2 b"
  by (simp add: pow2_powi power_int_add)

lemma pow2_mono: "a \<le> b \<Longrightarrow> pow2 a \<le> pow2 b"
  by (simp add: pow2_powi power_int_increasing)

lemma ilog2_bounds:
  assumes "0 < x"
  shows "pow2 (ilog2 x) \<le> x \<and> x < pow2 (ilog2 x + 1)"
proof (cases "1 \<le> x")
  case True
  define n where "n = \<lfloor>x\<rfloor>"
  have n: "0 < n" "of_int n \<le> x" "x < of_int n + 1"
    using True by (auto simp: n_def) linarith+
  have b: "2 ^ nat (bitlen n - 1) \<le> n" "n < 2 ^ nat (bitlen n)"
    using bitlen_bounds [OF n(1)] by simp_all
  have l: "1 \<le> bitlen n"
    using n(1) bitlen_eq_zero_iff [of n] bitlen_nonneg [of n] by linarith
  have e: "ilog2 x = bitlen n - 1"
    using True by (simp add: ilog2_def n_def)
  have "(2::rat) ^ nat (bitlen n - 1) \<le> of_int n"
    using b(1) by (metis of_int_le_iff of_int_numeral of_int_power)
  moreover have "of_int n + 1 \<le> (2::rat) ^ nat (bitlen n)"
  proof -
    have "n + 1 \<le> 2 ^ nat (bitlen n)" using b(2) by simp
    then have "(of_int (n + 1) :: rat) \<le> of_int (2 ^ nat (bitlen n))"
      by (simp only: of_int_le_iff)
    then show ?thesis by simp
  qed
  moreover have "pow2 (bitlen n - 1) = 2 ^ nat (bitlen n - 1)"
    using l by (simp add: pow2_def)
  moreover have "pow2 (bitlen n - 1 + 1) = 2 ^ nat (bitlen n)"
    using l by (simp add: pow2_def)
  ultimately show ?thesis
    unfolding e using n(2,3) by linarith
next
  case False
  define m where "m = \<lceil>1 / x\<rceil> - 1"
  have y: "1 < 1 / x" using assms False by simp
  have m: "0 < m" "of_int m < 1 / x" "1 / x \<le> of_int m + 1"
    using y by (auto simp: m_def) linarith+
  have b: "2 ^ nat (bitlen m - 1) \<le> m" "m < 2 ^ nat (bitlen m)"
    using bitlen_bounds [OF m(1)] by simp_all
  have l: "1 \<le> bitlen m"
    using m(1) bitlen_eq_zero_iff [of m] bitlen_nonneg [of m] by linarith
  have e: "ilog2 x = - bitlen m"
    using False by (simp add: ilog2_def m_def)
  have lo: "(2::rat) ^ nat (bitlen m - 1) \<le> of_int m"
    using b(1) by (metis of_int_le_iff of_int_numeral of_int_power)
  have hi: "of_int m + 1 \<le> (2::rat) ^ nat (bitlen m)"
  proof -
    have "m + 1 \<le> 2 ^ nat (bitlen m)" using b(2) by simp
    then have "(of_int (m + 1) :: rat) \<le> of_int (2 ^ nat (bitlen m))"
      by (simp only: of_int_le_iff)
    then show ?thesis by simp
  qed
  have "1 / x \<le> 2 ^ nat (bitlen m)" using m(3) hi by linarith
  then have A: "1 / 2 ^ nat (bitlen m) \<le> x"
    using assms by (simp add: field_simps)
  have "2 ^ nat (bitlen m - 1) < 1 / x" using m(2) lo by linarith
  then have B: "x < 1 / 2 ^ nat (bitlen m - 1)"
    using assms by (simp add: field_simps)
  have C: "pow2 (- bitlen m + 1) = 1 / 2 ^ nat (bitlen m - 1)"
    using l by (cases "bitlen m = 1") (auto simp: pow2_def)
  have D: "pow2 (- bitlen m) = 1 / 2 ^ nat (bitlen m)"
    using l by (simp add: pow2_def)
  show ?thesis
    unfolding e C D using A B by simp
qed

lemma fl_0 [simp]: "fl 0 = 0"
  by (simp add: fl_def)

lemma fl_pos_bounds:
  assumes "0 < x"
  shows "pow2 (ilog2 x) \<le> fl x \<and> fl x \<le> pow2 (ilog2 x + 1)"
proof -
  define q where "q = pow2 (ilog2 x - 52)"
  have q: "0 < q" by (simp add: q_def)
  have f: "fl x = of_int (round_half_even (x / q)) * q"
    using assms by (simp add: fl_def q_def Let_def)
  have c: "pow2 52 = 2 ^ 52" "pow2 53 = 2 ^ 53"
    by (simp_all add: pow2_def)
  have "pow2 (52 + (ilog2 x - 52)) = pow2 52 * pow2 (ilog2 x - 52)"
    by (rule pow2_add)
  then have p52: "pow2 (ilog2 x) = 2 ^ 52 * q"
    by (simp add: q_def c)
  have "pow2 (53 + (ilog2 x - 52)) = pow2 53 * pow2 (ilog2 x - 52)"
    by (rule pow2_add)
  then have p53: "pow2 (ilog2 x + 1) = 2 ^ 53 * q"
    by (simp add: q_def c add.commute)
  have "2 ^ 52 * q \<le> x" "x < 2 ^ 53 * q"
    using ilog2_bounds [OF assms] by (simp_all add: p52 p53)
  then have d: "of_int (2 ^ 52) \<le> x / q" "x / q \<le> of_int (2 ^ 53)"
    using q by (simp_all add: field_simps)
  have "round_half_even (of_int (2 ^ 52)) \<le> round_half_even (x / q)"
       "round_half_even (x / q) \<le> round_half_even (of_int (2 ^ 53))"
    by (rule round_half_even_mono [OF d(1)], rule round_half_even_mono [OF d(2)])
  then have "2 ^ 52 \<le> round_half_even (x / q)" "round_half_even (x / q) \<le> 2 ^ 53"
    by (simp_all only: round_half_even_of_int)
  then have "(of_int (2 ^ 52) :: rat) \<le> of_int (round_half_even (x / q))"
       "(of_int (round_half_even (x / q)) :: rat) \<le> of_int (2 ^ 53)"
    by (simp_all only: of_int_le_iff)
  then have "2 ^ 52 * q \<le> fl x" "fl x \<le> 2 ^ 53 * q"
    using q by (simp_all add: f)
  then show ?thesis by (simp add: p52 p53)
qed

lemma fl_pos: "0 < x \<Longrightarrow> 0 < fl x"
  using fl_pos_bounds [of x] pow2_pos [of "ilog2 x"] by linarith

lemma fl_nonneg: "0 \<le> x \<Longrightarrow> 0 \<le> fl x"
  using fl_pos [of x] by (cases "x = 0") auto

lemma fl_mono:
  assumes "0 \<le> x" "x \<le> y"
  shows "fl x \<le> fl y"
proof (cases "x = 0")
  case True
  then show ?thesis using assms fl_nonneg [of y] by simp
next
  case False
  then have x: "0 < x" and y: "0 < y" using assms by simp_all
  have "pow2 (ilog2 x) < pow2 (ilog2 y + 1)"
    using ilog2_bounds [OF x] ilog2_bounds [OF y] assms(2) by linarith
  then have le: "ilog2 x \<le> ilog2 y"
    using pow2_mono [of "ilog2 y + 1" "ilog2 x"] by (cases "ilog2 x \<le> ilog2 y") auto
  show ?thesis
  proof (cases "ilog2 x = ilog2 y")
    case True
    define q where "q = pow2 (ilog2 y - 52)"
    have q: "0 < q" by (simp add: q_def)
    have "x / q \<le> y / q" using assms(2) q by (simp add: divide_right_mono)
    then have "round_half_even (x / q) \<le> round_half_even (y / q)"
      by (rule round_half_even_mono)
    then have "(of_int (round_half_even (x / q)) :: rat) \<le> of_int (round_half_even (y / q))"
      by (simp only: of_int_le_iff)
    then show ?thesis
      using x y q True by (simp add: fl_def q_def Let_def)
  next
    case False
    with le have "ilog2 x + 1 \<le> ilog2 y" by simp
    then have "pow2 (ilog2 x + 1) \<le> pow2 (ilog2 y)" by (rule pow2_mono)
    then show ?thesis
      using fl_pos_bounds [OF x] fl_pos_bounds [OF y] by linarith
  qed
qed

lemma py_round_mono:
  assumes "0 \<le> x" "x \<le> y"
  shows "py_round x n \<le> py_round y n"
proof -
  have "x * 10 ^ n \<le> y * 10 ^ n" using assms(2) by simp
  then have r: "round_half_even (x * 10 ^ n) \<le> round_half_even (y * 10 ^ n)"
    by (rule round_half_even_mono)
  have "round_half_even (of_int 0) \<le> round_half_even (x * 10 ^ n)"
    by (rule round_half_even_mono) (use assms(1) in simp)
  then have z: "0 \<le> round_half_even (x * 10 ^ n)"
    by (simp only: round_half_even_of_int)
  have "(of_int (round_half_even (x * 10 ^ n)) :: rat) / 10 ^ n
          \<le> of_int (round_half_even (y * 10 ^ n)) / 10 ^ n"
    using r by (simp add: divide_right_mono)
  moreover have "(0::rat) \<le> of_int (round_half_even (x * 10 ^ n)) / 10 ^ n"
    using z by simp
  ultimately show ?thesis
    unfolding py_round_def by (rule fl_mono [rotated])
qed

section \<open>The samples of the evaluator\<close>

lemma random_nonneg: "0 \<le> random k"
  by (simp add: random_def)

lemma random_le: "k < 2 ^ 53 \<Longrightarrow> random k \<le> random (2 ^ 53 - 1)"
  by (simp add: random_def divide_right_mono)

lemma uniform_lower:
  assumes "0 \<le> a" "a \<le> b"
  shows "fl a \<le> uniform a b k"
proof -
  have "0 \<le> fl (b - a)" using assms by (simp add: fl_nonneg)
  then have "0 \<le> fl (b - a) * random k" using random_nonneg by simp
  then have "0 \<le> fl (fl (b - a) * random k)" by (rule fl_nonneg)
  then have "a \<le> a + fl (fl (b - a) * random k)" by simp
  with assms(1) show ?thesis
    unfolding uniform_def fadd_def fmul_def fsub_def by (rule fl_mono)
qed

lemma uniform_upper:
  assumes "0 \<le> a" "a \<le> b" "k < 2 ^ 53"
  shows "uniform a b k \<le> uniform a b (2 ^ 53 - 1)"
proof -
  have d: "0 \<le> fl (b - a)" using assms by (simp add: fl_nonneg)
  have "fl (b - a) * random k \<le> fl (b - a) * random (2 ^ 53 - 1)"
    using d random_le [OF assms(3)] by (rule mult_left_mono [rotated])
  moreover have "0 \<le> fl (b - a) * random k" using d random_nonneg by simp
  ultimately have le: "fl (fl (b - a) * random k) \<le> fl (fl (b - a) * random (2 ^ 53 - 1))"
    by (rule fl_mono [rotated])
  have "0 \<le> fl (fl (b - a) * random k)"
    using d random_nonneg by (simp add: fl_nonneg)
  then have "0 \<le> a + fl (fl (b - a) * random k)" using assms(1) by simp
  moreover have "a + fl (fl (b - a) * random k) \<le> a + fl (fl (b - a) * random (2 ^ 53 - 1))"
    using le by simp
  ultimately show ?thesis
    unfolding uniform_def fadd_def fmul_def fsub_def by (rule fl_mono)
qed

lemma literals:
  "fl (75 / 100) = 3 / 4"
  "fl (95 / 100) = 4278419646001971 / 4503599627370496"
  "fl (70 / 100) = 3152519739159347 / 4503599627370496"
  "fl (92 / 100) = 8286623314361713 / 9007199254740992"
  "fl (72 / 100) = 3242591731706757 / 4503599627370496"
  "fl (94 / 100) = 2116691824864133 / 2251799813685248"
  "fl (8 / 10) = 3602879701896397 / 4503599627370496"
  by code_simp+

lemma literals_idem:
  "fl (fl (75 / 100)) = fl (75 / 100)"
  "fl (fl (70 / 100)) = fl (70 / 100)"
  "fl (fl (72 / 100)) = fl (72 / 100)"
  by code_simp+

lemma uniform_max:
  "uniform (fl (75 / 100)) (fl (95 / 100)) (2 ^ 53 - 1) = fl (95 / 100)"
  "uniform (fl (70 / 100)) (fl (92 / 100)) (2 ^ 53 - 1) = fl (92 / 100)"
  "uniform (fl (72 / 100)) (fl (94 / 100)) (2 ^ 53 - 1) = fl (94 / 100)"
  by code_simp+

lemma py_round_literals:
  "py_round (fl (75 / 100)) 4 = fl (75 / 100)"
  "py_round (fl (95 / 100)) 4 = fl (95 / 100)"
  "py_round (fl (70 / 100)) 4 = fl (70 / 100)"
  "py_round (fl (92 / 100)) 4 = fl (92 / 100)"
  "py_round (fl (72 / 100)) 4 = fl (72 / 100)"
  "py_round (fl (94 / 100)) 4 = fl (94 / 100)"
  by code_simp+

lemma accuracy_sample:
  assumes "k < 2 ^ 53"
  shows "fl (75 / 100) \<le> uniform (fl (75 / 100)) (fl (95 / 100)) k"
    and "uniform (fl (75 / 100)) (fl (95 / 100)) k \<le> fl (95 / 100)"
proof -
  have o: "(0::rat) \<le> fl (75 / 100)" "fl (75 / 100) \<le> fl (95 / 100)"
    unfolding literals by simp_all
  show "fl (75 / 100) \<le> uniform (fl (75 / 100)) (fl (95 / 100)) k"
    using uniform_lower [OF o] by (simp only: literals_idem)
  show "uniform (fl (75 / 100)) (fl (95 / 100)) k \<le> fl (95 / 100)"
    using uniform_upper [OF o assms] by (simp only: uniform_max)
qed

lemma precision_sample:
  assumes "k < 2 ^ 53"
  shows "fl (70 / 100) \<le> uniform (fl (70 / 100)) (fl (92 / 100)) k"
    and "uniform (fl (70 / 100)) (fl (92 / 100)) k \<le> fl (92 / 100)"
proof -
  have o: "(0::rat) \<le> fl (70 / 100)" "fl (70 / 100) \<le> fl (92 / 100)"
    unfolding literals by simp_all
  show "fl (70 / 100) \<le> uniform (fl (70 / 100)) (fl (92 / 100)) k"
    using uniform_lower [OF o] by (simp only: literals_idem)
  show "uniform (fl (70 / 100)) (fl (92 / 100)) k \<le> fl (92 / 100)"
    using uniform_upper [OF o assms] by (simp only: uniform_max)
qed

lemma recall_sample:
  assumes "k < 2 ^ 53"
  shows "fl (72 / 100) \<le> uniform (fl (72 / 100)) (fl (94 / 100)) k"
    and "uniform (fl (72 / 100)) (fl (94 / 100)) k \<le> fl (94 / 100)"
proof -
  have o: "(0::rat) \<le> fl (72 / 100)" "fl (72 / 100) \<le> fl (94 / 100)"
    unfolding literals by simp_all
  show "fl (72 / 100) \<le> uniform (fl (72 / 100)) (fl (94 / 100)) k"
    using uniform_lower [OF o] by (simp only: literals_idem)
  show "uniform (fl (72 / 100)) (fl (94 / 100)) k \<le> fl (94 / 100)"
    using uniform_upper [OF o assms] by (simp only: uniform_max)
qed

text \<open>The sum of a precision sample and a recall sample is not zero, whatever the draws.\<close>

lemma samples_sum_nonzero:
  "fadd (uniform (fl (70 / 100)) (fl (92 / 100)) k2) (uniform (fl (72 / 100)) (fl (94 / 100)) k3) \<noteq> 0"
proof -
  have "fl (fl (70 / 100)) \<le> uniform (fl (70 / 100)) (fl (92 / 100)) k2"
    by (rule uniform_lower) (unfold literals, simp_all)
  moreover have "fl (fl (72 / 100)) \<le> uniform (fl (72 / 100)) (fl (94 / 100)) k3"
    by (rule uniform_lower) (unfold literals, simp_all)
  ultimately have "0 < uniform (fl (70 / 100)) (fl (92 / 100)) k2
                     + uniform (fl (72 / 100)) (fl (94 / 100)) k3"
    unfolding literals_idem unfolding literals by simp
  then show ?thesis
    unfolding fadd_def using fl_pos by fastforce
qed

section \<open>The evaluator\<close>

lemma py_round_between:
  assumes "py_round lo 4 = lo" "py_round hi 4 = hi" "0 \<le> lo" "lo \<le> x" "x \<le> hi"
  shows "lo \<le> py_round x 4 \<and> py_round x 4 \<le> hi"
proof -
  have x: "0 \<le> x" using assms(3,4) by simp
  have "py_round lo 4 \<le> py_round x 4" using assms(3,4) by (rule py_round_mono)
  then have l: "lo \<le> py_round x 4" by (simp only: assms(1))
  have "py_round x 4 \<le> py_round hi 4" using x assms(5) by (rule py_round_mono)
  then have "py_round x 4 \<le> hi" by (simp only: assms(2))
  with l show ?thesis ..
qed

lemma literals_nonneg:
  "0 \<le> fl (75 / 100)" "0 \<le> fl (70 / 100)" "0 \<le> fl (72 / 100)"
  unfolding literals by simp_all

lemma evaluate_model_returns:
  "evaluate_model cfg ti k1 k2 k3 st =
     (let accuracy = uniform (fl (75 / 100)) (fl (95 / 100)) k1;
          precision = uniform (fl (70 / 100)) (fl (92 / 100)) k2;
          recall = uniform (fl (72 / 100)) (fl (94 / 100)) k3;
          f1_score = fl (fmul 2 (fmul precision recall) / fadd precision recall);
          metrics = PDict
             [(''accuracy'', PFloat (py_round accuracy 4)),
              (''precision'', PFloat (py_round precision 4)),
              (''recall'', PFloat (py_round recall 4)),
              (''f1_score'', PFloat (py_round f1_score 4))]
      in (Inr metrics, xcom_push st ti ''metrics'' metrics,
          [Print (EvalStart (MODEL_VERSION cfg)), Print (MetricsLine metrics)]))"
  using samples_sum_nonzero [of k2 k3]
  by (simp add: evaluate_model_def Let_def fdiv_def)

text \<open>
  The result of \<open>py_round x 4\<close> is the float of a decimal with four digits, and that
  decimal is within half a unit of the fourth digit of \<open>x\<close>.
\<close>

lemma py_round_decimal:
  "py_round x 4 = fl (of_int (round_half_even (x * 10000)) / 10000)"
  "\<bar>of_int (round_half_even (x * 10000)) / 10000 - x\<bar> \<le> 1 / 20000"
proof -
  show "py_round x 4 = fl (of_int (round_half_even (x * 10000)) / 10000)"
    by (simp add: py_round_def)
  have b: "x * 10000 - 1 / 2 \<le> of_int (round_half_even (x * 10000))"
       "of_int (round_half_even (x * 10000)) \<le> x * 10000 + 1 / 2"
    using round_half_even_bounds [of "x * 10000"] by simp_all
  have "of_int (round_half_even (x * 10000)) / 10000 - x \<le> 1 / 20000"
    using b(2) by linarith
  moreover have "- (of_int (round_half_even (x * 10000)) / 10000 - x) \<le> 1 / 20000"
    using b(1) by linarith
  ultimately show "\<bar>of_int (round_half_even (x * 10000)) / 10000 - x\<bar> \<le> 1 / 20000"
    by (rule abs_leI)
qed

lemma literal_digits:
  "round_half_even (fl (75 / 100) * 10000) = 7500"
  "round_half_even (fl (95 / 100) * 10000) = 9500"
  "round_half_even (fl (70 / 100) * 10000) = 7000"
  "round_half_even (fl (92 / 100) * 10000) = 9200"
  "round_half_even (fl (72 / 100) * 10000) = 7200"
  "round_half_even (fl (94 / 100) * 10000) = 9400"
  by code_simp+

lemma digits_between:
  assumes "round_half_even (lo * 10000) = nlo" "round_half_even (hi * 10000) = nhi"
    and "lo \<le> x" "x \<le> hi"
  shows "nlo \<le> round_half_even (x * 10000) \<and> round_half_even (x * 10000) \<le> nhi"
proof -
  have "round_half_even (lo * 10000) \<le> round_half_even (x * 10000)"
    by (rule round_half_even_mono) (use assms(3) in simp)
  moreover have "round_half_even (x * 10000) \<le> round_half_even (hi * 10000)"
    by (rule round_half_even_mono) (use assms(4) in simp)
  ultimately show ?thesis by (simp only: assms(1,2)) 
qed


text \<open>
  Claim C8. For all draws of the random generator, \<open>evaluate_model\<close> returns (it does
  not raise) a metrics record, and the store it leaves holds that record under the key
  \<open>metrics\<close> of the running task. The accuracy of the record is between the floats
  \<open>0.75\<close> and \<open>0.95\<close>, the precision between \<open>0.70\<close> and \<open>0.92\<close>, the recall between
  \<open>0.72\<close> and \<open>0.94\<close>. Each of the three is rounded to 4 decimal digits: it is the
  float of \<open>n / 10000\<close> for a whole number \<open>n\<close> (from 7500 to 9500, from 7000 to 9200,
  from 7200 to 9400), and \<open>n / 10000\<close> is within \<open>0.00005\<close> of the sample drawn.
\<close>

theorem evaluate_model_metrics:
  assumes "k1 < 2 ^ 53" "k2 < 2 ^ 53" "k3 < 2 ^ 53"
  shows "\<exists>a p r f na np nr.
           fst (evaluate_model cfg ti k1 k2 k3 st) =
             Inr (PDict [(''accuracy'', PFloat a), (''precision'', PFloat p),
                         (''recall'', PFloat r), (''f1_score'', PFloat f)])
         \<and> fst (snd (evaluate_model cfg ti k1 k2 k3 st)) =
             st((ti, ''metrics'') \<mapsto>
                PDict [(''accuracy'', PFloat a), (''precision'', PFloat p),
                       (''recall'', PFloat r), (''f1_score'', PFloat f)])
         \<and> a = py_round (uniform (fl (75 / 100)) (fl (95 / 100)) k1) 4
         \<and> fl (75 / 100) \<le> a \<and> a \<le> fl (95 / 100)
         \<and> p = py_round (uniform (fl (70 / 100)) (fl (92 / 100)) k2) 4
         \<and> fl (70 / 100) \<le> p \<and> p \<le> fl (92 / 100)
         \<and> r = py_round (uniform (fl (72 / 100)) (fl (94 / 100)) k3) 4
         \<and> fl (72 / 100) \<le> r \<and> r \<le> fl (94 / 100)
         \<and> a = fl (of_int na / 10000) \<and> 7500 \<le> na \<and> na \<le> 9500
         \<and> \<bar>of_int na / 10000 - uniform (fl (75 / 100)) (fl (95 / 100)) k1\<bar> \<le> 1 / 20000
         \<and> p = fl (of_int np / 10000) \<and> 7000 \<le> np \<and> np \<le> 9200
         \<and> \<bar>of_int np / 10000 - uniform (fl (70 / 100)) (fl (92 / 100)) k2\<bar> \<le> 1 / 20000
         \<and> r = fl (of_int nr / 10000) \<and> 7200 \<le> nr \<and> nr \<le> 9400
         \<and> \<bar>of_int nr / 10000 - uniform (fl (72 / 100)) (fl (94 / 100)) k3\<bar> \<le> 1 / 20000"
proof -
  define xa where "xa = uniform (fl (75 / 100)) (fl (95 / 100)) k1"
  define xp where "xp = uniform (fl (70 / 100)) (fl (92 / 100)) k2"
  define xr where "xr = uniform (fl (72 / 100)) (fl (94 / 100)) k3"
  have sa: "fl (75 / 100) \<le> xa" "xa \<le> fl (95 / 100)"
    unfolding xa_def by (rule accuracy_sample [OF assms(1)])+
  have sp: "fl (70 / 100) \<le> xp" "xp \<le> fl (92 / 100)"
    unfolding xp_def by (rule precision_sample [OF assms(2)])+
  have sr: "fl (72 / 100) \<le> xr" "xr \<le> fl (94 / 100)"
    unfolding xr_def by (rule recall_sample [OF assms(3)])+
  have a: "fl (75 / 100) \<le> py_round xa 4 \<and> py_round xa 4 \<le> fl (95 / 100)"
    by (rule py_round_between [OF py_round_literals(1,2) literals_nonneg(1) sa])
  have p: "fl (70 / 100) \<le> py_round xp 4 \<and> py_round xp 4 \<le> fl (92 / 100)"
    by (rule py_round_between [OF py_round_literals(3,4) literals_nonneg(2) sp])
  have r: "fl (72 / 100) \<le> py_round xr 4 \<and> py_round xr 4 \<le> fl (94 / 100)"
    by (rule py_round_between [OF py_round_literals(5,6) literals_nonneg(3) sr])
  have na: "7500 \<le> round_half_even (xa * 10000) \<and> round_half_even (xa * 10000) \<le> 9500"
    by (rule digits_between [OF literal_digits(1,2) sa])
  have np: "7000 \<le> round_half_even (xp * 10000) \<and> round_half_even (xp * 10000) \<le> 9200"
    by (rule digits_between [OF literal_digits(3,4) sp])
  have nr: "7200 \<le> round_half_even (xr * 10000) \<and> round_half_even (xr * 10000) \<le> 9400"
    by (rule digits_between [OF literal_digits(5,6) sr])
  show ?thesis
    unfolding evaluate_model_returns Let_def xcom_push_def fst_conv snd_conv
      xa_def [symmetric] xp_def [symmetric] xr_def [symmetric]
    using a p r na np nr
      py_round_decimal [of xa] py_round_decimal [of xp] py_round_decimal [of xr]
    by blast
qed

text \<open>The theorem at the draws \<open>2 ^ 48\<close>, \<open>2 ^ 49\<close> and \<open>11 * 2 ^ 49\<close>.\<close>

theorem evaluate_model_metrics_witness:
  "\<exists>a p r f na np nr.
     fst (evaluate_model example_config ''evaluate_model'' (2 ^ 48) (2 ^ 49) (11 * 2 ^ 49)
            Map.empty) =
       Inr (PDict [(''accuracy'', PFloat a), (''precision'', PFloat p),
                   (''recall'', PFloat r), (''f1_score'', PFloat f)])
   \<and> fst (snd (evaluate_model example_config ''evaluate_model'' (2 ^ 48) (2 ^ 49)
                  (11 * 2 ^ 49) Map.empty)) =
       Map.empty((''evaluate_model'', ''metrics'') \<mapsto>
          PDict [(''accuracy'', PFloat a), (''precision'', PFloat p),
                 (''recall'', PFloat r), (''f1_score'', PFloat f)])
   \<and> a = py_round (uniform (fl (75 / 100)) (fl (95 / 100)) (2 ^ 48)) 4
   \<and> fl (75 / 100) \<le> a \<and> a \<le> fl (95 / 100)
   \<and> p = py_round (uniform (fl (70 / 100)) (fl (92 / 100)) (2 ^ 49)) 4
   \<and> fl (70 / 100) \<le> p \<and> p \<le> fl (92 / 100)
   \<and> r = py_round (uniform (fl (72 / 100)) (fl (94 / 100)) (11 * 2 ^ 49)) 4
   \<and> fl (72 / 100) \<le> r \<and> r \<le> fl (94 / 100)
   \<and> a = fl (of_int na / 10000) \<and> 7500 \<le> na \<and> na \<le> 9500
   \<and> \<bar>of_int na / 10000 - uniform (fl (75 / 100)) (fl (95 / 100)) (2 ^ 48)\<bar> \<le> 1 / 20000
   \<and> p = fl (of_int np / 10000) \<and> 7000 \<le> np \<and> np \<le> 9200
   \<and> \<bar>of_int np / 10000 - uniform (fl (70 / 100)) (fl (92 / 100)) (2 ^ 49)\<bar> \<le> 1 / 20000
   \<and> r = fl (of_int nr / 10000) \<and> 7200 \<le> nr \<and> nr \<le> 9400
   \<and> \<bar>of_int nr / 10000 - uniform (fl (72 / 100)) (fl (94 / 100)) (11 * 2 ^ 49)\<bar> \<le> 1 / 20000"
  by (rule evaluate_model_metrics) simp_all

subsection \<open>The F1 score\<close>

lemma example_draws:
  "uniform (fl (75 / 100)) (fl (95 / 100)) (2 ^ 48) = 6811694436397875 / 9007199254740992"
  "uniform (fl (70 / 100)) (fl (92 / 100)) (2 ^ 49) = 6428888468071383 / 9007199254740992"
  "uniform (fl (72 / 100)) (fl (94 / 100)) (11 * 2 ^ 49) = 7847522350693089 / 9007199254740992"
  by code_simp+

lemma example_f1:
  "fl (fmul 2 (fmul (6428888468071383 / 9007199254740992) (7847522350693089 / 9007199254740992))
       / fadd (6428888468071383 / 9007199254740992) (7847522350693089 / 9007199254740992))
   = 3533860616913055 / 4503599627370496"
  by code_simp

lemma example_rounds:
  "py_round (6811694436397875 / 9007199254740992) 4 = fl (7562 / 10000)"
  "py_round (6428888468071383 / 9007199254740992) 4 = fl (7137 / 10000)"
  "py_round (7847522350693089 / 9007199254740992) 4 = fl (8712 / 10000)"
  "py_round (3533860616913055 / 4503599627370496) 4 = fl (7847 / 10000)"
  by code_simp+

lemma example_spec_f1:
  "spec_f1_score (6428888468071383 / 9007199254740992) (7847522350693089 / 9007199254740992)
   = Inr (fl (7846 / 10000))"
  by code_simp

lemma example_f1_differ: "fl (7847 / 10000) \<noteq> fl (7846 / 10000)"
  by code_simp

lemma evaluate_model_example:
  "evaluate_model cfg ti (2 ^ 48) (2 ^ 49) (11 * 2 ^ 49) st =
     (Inr (PDict [(''accuracy'', PFloat (fl (7562 / 10000))),
                  (''precision'', PFloat (fl (7137 / 10000))),
                  (''recall'', PFloat (fl (8712 / 10000))),
                  (''f1_score'', PFloat (fl (7847 / 10000)))]),
      xcom_push st ti ''metrics''
        (PDict [(''accuracy'', PFloat (fl (7562 / 10000))),
                (''precision'', PFloat (fl (7137 / 10000))),
                (''recall'', PFloat (fl (8712 / 10000))),
                (''f1_score'', PFloat (fl (7847 / 10000)))]),
      [Print (EvalStart (MODEL_VERSION cfg)),
       Print (MetricsLine
         (PDict [(''accuracy'', PFloat (fl (7562 / 10000))),
                 (''precision'', PFloat (fl (7137 / 10000))),
                 (''recall'', PFloat (fl (8712 / 10000))),
                 (''f1_score'', PFloat (fl (7847 / 10000)))]))])"
  unfolding evaluate_model_returns Let_def example_draws example_f1 example_rounds
  by (rule refl)

text \<open>
  Claim C1, as stated, fails. At the draws \<open>2 ^ 49\<close> for the precision and
  \<open>11 * 2 ^ 49\<close> for the recall the samples are \<open>0.71375\<close> and \<open>0.87125\<close>; the
  evaluator publishes the F1 score \<open>0.7847\<close>, and the formula over the rounded
  precision \<open>0.7137\<close> and recall \<open>0.8712\<close> gives \<open>0.7846\<close>.
\<close>

theorem f1_from_rounded_counterexample:
  "fst (evaluate_model example_config ''evaluate_model'' (2 ^ 48) (2 ^ 49) (11 * 2 ^ 49)
          Map.empty) =
     Inr (PDict [(''accuracy'', PFloat (fl (7562 / 10000))),
                 (''precision'', PFloat (fl (7137 / 10000))),
                 (''recall'', PFloat (fl (8712 / 10000))),
                 (''f1_score'', PFloat (fl (7847 / 10000)))])
   \<and> spec_f1_score (uniform (fl (70 / 100)) (fl (92 / 100)) (2 ^ 49))
                     (uniform (fl (72 / 100)) (fl (94 / 100)) (11 * 2 ^ 49)) =
       Inr (fl (7846 / 10000))
   \<and> fl (7847 / 10000) \<noteq> fl (7846 / 10000)"
  unfolding evaluate_model_example fst_conv example_draws example_spec_f1
  by (intro conjI refl example_f1_differ)

text \<open>
  Claim C1, amended. The evaluator computes the F1 score from the raw precision and
  recall samples, as \<^verbatim>\<open>2 * (precision * recall) / (precision + recall)\<close>; the division
  never fails, and the published \<open>f1_score\<close> is that value rounded to 4 decimal digits.
  The published precision and recall are the same samples, each rounded to 4 digits on
  its own.
\<close>

theorem evaluate_model_f1_score:
  "let precision = uniform (fl (70 / 100)) (fl (92 / 100)) k2;
       recall = uniform (fl (72 / 100)) (fl (94 / 100)) k3
   in \<exists>f1_score m.
        fdiv (fmul 2 (fmul precision recall)) (fadd precision recall) = Inr f1_score
      \<and> fst (evaluate_model cfg ti k1 k2 k3 st) = Inr (PDict m)
      \<and> map_of m ''precision'' = Some (PFloat (py_round precision 4))
      \<and> map_of m ''recall'' = Some (PFloat (py_round recall 4))
      \<and> map_of m ''f1_score'' = Some (PFloat (py_round f1_score 4))"
  using samples_sum_nonzero [of k2 k3]
  unfolding evaluate_model_returns Let_def fdiv_def
  by simp

text \<open>The theorem at the draws of the counterexample.\<close>

theorem evaluate_model_f1_score_witness:
  "let precision = uniform (fl (70 / 100)) (fl (92 / 100)) (2 ^ 49);
       recall = uniform (fl (72 / 100)) (fl (94 / 100)) (11 * 2 ^ 49)
   in \<exists>f1_score m.
        fdiv (fmul 2 (fmul precision recall)) (fadd precision recall) = Inr f1_score
      \<and> fst (evaluate_model example_config ''evaluate_model'' (2 ^ 48) (2 ^ 49) (11 * 2 ^ 49)
                Map.empty) = Inr (PDict m)
      \<and> map_of m ''precision'' = Some (PFloat (py_round precision 4))
      \<and> map_of m ''recall'' = Some (PFloat (py_round recall 4))
      \<and> map_of m ''f1_score'' = Some (PFloat (py_round f1_score 4))"
  by (rule evaluate_model_f1_score)

section \<open>The gate\<close>

lemma threshold_value: "ACCURACY_THRESHOLD = 3602879701896397 / 4503599627370496"
  unfolding ACCURACY_THRESHOLD_def by (rule literals(7))

lemma threshold_pos: "0 < ACCURACY_THRESHOLD"
  unfolding threshold_value by simp

lemma below_threshold: "fl (76 / 100) < ACCURACY_THRESHOLD"
  unfolding ACCURACY_THRESHOLD_def by code_simp

lemma py_ge_number:
  "py_number v = Some a \<Longrightarrow> py_ge v (PFloat t) = Inr (t \<le> a)"
  by (cases v) simp_all

lemma check_metrics_number:
  assumes "xcom_pull st ''evaluate_model'' ''metrics'' = PDict kvs"
    and "py_number (case map_of kvs ''accuracy'' of None \<Rightarrow> PInt 0 | Some v \<Rightarrow> v) = Some a"
  shows "check_metrics st =
     (Inr (PStr (if ACCURACY_THRESHOLD \<le> a then ''deploy_model'' else ''skip_deploy'')), st,
      [Print (CheckLine (case map_of kvs ''accuracy'' of None \<Rightarrow> PInt 0 | Some v \<Rightarrow> v)
                ACCURACY_THRESHOLD),
       Print (if ACCURACY_THRESHOLD \<le> a then DeployAllowed ACCURACY_THRESHOLD
              else DeployRejected ACCURACY_THRESHOLD)])"
  unfolding check_metrics_def Let_def assms(1) py_get.simps
  by (simp add: py_ge_number [OF assms(2)])

text \<open>
  Claim C2. When the metrics record holds a number under \<open>accuracy\<close>, the gate returns
  \<open>deploy_model\<close> if the number is at least the threshold (the float \<open>0.8\<close>), the
  threshold itself included, and \<open>skip_deploy\<close> if it is less.
\<close>

theorem check_metrics_threshold:
  assumes "xcom_pull st ''evaluate_model'' ''metrics'' = PDict kvs"
    and "map_of kvs ''accuracy'' = Some v"
    and "py_number v = Some a"
  shows "(ACCURACY_THRESHOLD \<le> a \<longrightarrow> fst (check_metrics st) = Inr (PStr ''deploy_model''))
       \<and> (a < ACCURACY_THRESHOLD \<longrightarrow> fst (check_metrics st) = Inr (PStr ''skip_deploy''))"
  using check_metrics_number [OF assms(1), of a] assms(2,3) by simp

text \<open>The theorem at the accuracy \<open>0.8\<close>, the boundary, and at the accuracy \<open>0.76\<close>.\<close>

theorem check_metrics_threshold_witness:
  "fst (check_metrics (Map.empty((''evaluate_model'', ''metrics'') \<mapsto>
          PDict [(''accuracy'', PFloat ACCURACY_THRESHOLD)]))) = Inr (PStr ''deploy_model'')
   \<and> fst (check_metrics (Map.empty((''evaluate_model'', ''metrics'') \<mapsto>
          PDict [(''accuracy'', PFloat (fl (76 / 100)))]))) = Inr (PStr ''skip_deploy'')"
  using check_metrics_threshold
          [of "Map.empty((''evaluate_model'', ''metrics'') \<mapsto>
                 PDict [(''accuracy'', PFloat ACCURACY_THRESHOLD)])"
              "[(''accuracy'', PFloat ACCURACY_THRESHOLD)]" "PFloat ACCURACY_THRESHOLD"
              ACCURACY_THRESHOLD]
        check_metrics_threshold
          [of "Map.empty((''evaluate_model'', ''metrics'') \<mapsto>
                 PDict [(''accuracy'', PFloat (fl (76 / 100)))])"
              "[(''accuracy'', PFloat (fl (76 / 100)))]" "PFloat (fl (76 / 100))"
              "fl (76 / 100)"]
        below_threshold
  by (simp add: xcom_pull_def)

text \<open>
  Claim C10. When the metrics record exists and has no \<open>accuracy\<close> entry, the gate
  compares the default \<open>0\<close> with the threshold and returns \<open>skip_deploy\<close>; it does not
  raise.
\<close>

theorem check_metrics_missing_accuracy:
  assumes "xcom_pull st ''evaluate_model'' ''metrics'' = PDict kvs"
    and "map_of kvs ''accuracy'' = None"
  shows "check_metrics st =
           (Inr (PStr ''skip_deploy''), st,
            [Print (CheckLine (PInt 0) ACCURACY_THRESHOLD),
             Print (DeployRejected ACCURACY_THRESHOLD)])"
  using check_metrics_number [OF assms(1), of 0] assms(2) threshold_pos by simp

text \<open>The theorem at a record with a precision and no accuracy.\<close>

theorem check_metrics_missing_accuracy_witness:
  "check_metrics (Map.empty((''evaluate_model'', ''metrics'') \<mapsto>
       PDict [(''precision'', PFloat (fl (85 / 100)))])) =
     (Inr (PStr ''skip_deploy''),
      Map.empty((''evaluate_model'', ''metrics'') \<mapsto> PDict [(''precision'', PFloat (fl (85 / 100)))]),
      [Print (CheckLine (PInt 0) ACCURACY_THRESHOLD), Print (DeployRejected ACCURACY_THRESHOLD)])"
  by (rule check_metrics_missing_accuracy [of _ "[(''precision'', PFloat (fl (85 / 100)))]"])
     (simp_all add: xcom_pull_def)

text \<open>
  Claim C9. The gate is a function of the metrics record alone: on two stores that hold
  the same record it returns (or raises) the same and prints the same, and it leaves
  each store as it found it.
\<close>

theorem check_metrics_pure:
  assumes "xcom_pull st1 ''evaluate_model'' ''metrics'' = xcom_pull st2 ''evaluate_model'' ''metrics''"
  shows "fst (check_metrics st1) = fst (check_metrics st2)
       \<and> snd (snd (check_metrics st1)) = snd (snd (check_metrics st2))
       \<and> fst (snd (check_metrics st1)) = st1
       \<and> fst (snd (check_metrics st2)) = st2"
  unfolding check_metrics_def Let_def assms
  by (simp split: sum.split bool.split)

text \<open>The theorem at the store before and after the deployer wrote to it.\<close>

theorem check_metrics_pure_witness:
  "fst (check_metrics evaluated_store) = fst (check_metrics deployed_store)
   \<and> snd (snd (check_metrics evaluated_store)) = snd (snd (check_metrics deployed_store))
   \<and> fst (snd (check_metrics evaluated_store)) = evaluated_store
   \<and> fst (snd (check_metrics deployed_store)) = deployed_store"
  by (rule check_metrics_pure)
     (simp add: xcom_pull_def deployed_store_def evaluated_store_def xcom_push_def)

section \<open>The run of the DAG\<close>

lemma upstream_simps:
  "upstream train = []" "upstream evaluate = [train]" "upstream check = [evaluate]"
  "upstream deploy = [check]" "upstream skip = [check]" "upstream notify = [deploy]"
  "upstream join = [skip, notify]"
  by (simp_all add: upstream_def dependencies_def)

lemma downstream_check: "downstream check = [deploy, skip]"
  by (simp add: downstream_def dependencies_def)

lemma schedule_decided:
  "map_of (states r) t = Some s \<Longrightarrow> schedule cfg ev r t = r"
  by (simp add: schedule_def)

lemma schedule_triggered:
  "map_of (states r) t = None \<Longrightarrow>
   trigger (trigger_rule_of t) (List.map_filter (map_of (states r)) (upstream t)) = Some s \<Longrightarrow>
   schedule cfg ev r t = r\<lparr>states := states r @ [(t, s)]\<rparr>"
  by (simp add: schedule_def)

lemma branch_skips_simps:
  "branch_skips check (PStr ''deploy_model'') = [(skip, skipped)]"
  "branch_skips check (PStr ''skip_deploy'') = [(deploy, skipped)]"
  "operator_of t \<noteq> BranchPythonOperator \<Longrightarrow> branch_skips t v = []"
  by (simp_all add: branch_skips_def downstream_check)


lemma evaluate_model_shape:
  "\<exists>m f out.
     evaluate_model cfg ti k1 k2 k3 st = (Inr (PDict m), st((ti, ''metrics'') \<mapsto> PDict m), out)
   \<and> map_of m ''accuracy'' =
       Some (PFloat (py_round (uniform (fl (75 / 100)) (fl (95 / 100)) k1) 4))
   \<and> map_of m ''f1_score'' = Some (PFloat f)"
  unfolding evaluate_model_returns Let_def xcom_push_def
  by (intro exI conjI) (rule refl, simp_all)

lemma notifier_returns:
  assumes "st (''deploy_model'', ''deploy_info'') = Some (PDict kvs)"
    and "map_of kvs ''metrics'' = Some (PDict m)"
  shows "\<exists>out. send_telegram_notification cfg fmt (Transport t) st = (Inr PNone, st, out)"
  using assms
  unfolding send_telegram_notification_def post_notification_def Let_def xcom_pull_def
  by (cases t) simp_all

text \<open>The run up to the gate: the trainer and the evaluator succeed.\<close>

lemma run_until_gate:
  "\<exists>m f o1 o2.
     foldl (schedule cfg ev) \<lparr>store = Map.empty, states = [], events = []\<rparr> [train, evaluate] =
       \<lparr>store = Map.empty((''evaluate_model'', ''metrics'') \<mapsto> PDict m),
        states = [(train, success), (evaluate, success)],
        events = map (Pair train) o1 @ map (Pair evaluate) o2\<rparr>
   \<and> map_of m ''accuracy'' =
       Some (PFloat (py_round (uniform (fl (75 / 100)) (fl (95 / 100)) (draw1 ev)) 4))
   \<and> map_of m ''f1_score'' = Some (PFloat f)"
proof -
  obtain m f out where E:
    "evaluate_model cfg ''evaluate_model'' (draw1 ev) (draw2 ev) (draw3 ev) Map.empty =
       (Inr (PDict m), Map.empty((''evaluate_model'', ''metrics'') \<mapsto> PDict m), out)"
    and m: "map_of m ''accuracy'' =
       Some (PFloat (py_round (uniform (fl (75 / 100)) (fl (95 / 100)) (draw1 ev)) 4))"
      "map_of m ''f1_score'' = Some (PFloat f)"
    using evaluate_model_shape by blast
  define r1 where "r1 = \<lparr>store = Map.empty, states = [(train, success)],
    events = map (Pair train) (snd (snd (train_model cfg Map.empty)))\<rparr>"
  have s1: "schedule cfg ev \<lparr>store = Map.empty, states = [], events = []\<rparr> train = r1"
    by (simp add: schedule_def execute_def upstream_simps List.map_filter_def train_model_def
          r1_def branch_skips_def)
  have s2: "schedule cfg ev r1 evaluate =
       \<lparr>store = Map.empty((''evaluate_model'', ''metrics'') \<mapsto> PDict m),
        states = [(train, success), (evaluate, success)],
        events = map (Pair train) (snd (snd (train_model cfg Map.empty)))
                 @ map (Pair evaluate) out\<rparr>"
    by (simp add: schedule_def execute_def upstream_simps List.map_filter_def r1_def E
          branch_skips_def)
  show ?thesis
    using m by (simp only: foldl.simps s1 s2) blast
qed

lemma dag_run_skip_path:
  assumes "py_round (uniform (fl (75 / 100)) (fl (95 / 100)) (draw1 ev)) 4 < ACCURACY_THRESHOLD"
  shows "states (dag_run cfg ev) =
           [(train, success), (evaluate, success), (check, success), (deploy, skipped),
            (skip, success), (notify, skipped), (join, success)]"
    and "filter (\<lambda>e. fst e = notify) (events (dag_run cfg ev)) = []"
    and "store (dag_run cfg ev) (''deploy_model'', ''deploy_info'') = None"
    and "(notify, e) \<notin> set (events (dag_run cfg ev))"
proof -
  define a where "a = py_round (uniform (fl (75 / 100)) (fl (95 / 100)) (draw1 ev)) 4"
  have a: "\<not> ACCURACY_THRESHOLD \<le> a" using assms by (simp only: a_def not_le)
  obtain m f o1 o2 where
    r2: "foldl (schedule cfg ev) \<lparr>store = Map.empty, states = [], events = []\<rparr>
           [train, evaluate] =
       \<lparr>store = Map.empty((''evaluate_model'', ''metrics'') \<mapsto> PDict m),
        states = [(train, success), (evaluate, success)],
        events = map (Pair train) o1 @ map (Pair evaluate) o2\<rparr>"
    and m: "map_of m ''accuracy'' = Some (PFloat a)" "map_of m ''f1_score'' = Some (PFloat f)"
    unfolding a_def using run_until_gate by blast
  define S where "S = Map.empty((''evaluate_model'', ''metrics'') \<mapsto> PDict m)"
  have pull: "xcom_pull S ''evaluate_model'' ''metrics'' = PDict m"
    by (simp add: S_def xcom_pull_def)
  have gate: "check_metrics S =
      (Inr (PStr ''skip_deploy''), S,
       [Print (CheckLine (PFloat a) ACCURACY_THRESHOLD), Print (DeployRejected ACCURACY_THRESHOLD)])"
    using check_metrics_number [OF pull, of a] m(1) a by simp
  have skipper: "skip_deploy cfg S =
      (Inr (PDict [(''status'', PStr ''skipped''), (''reason'', PStr ''metrics_below_threshold'')]),
       S,
       [Print (SkipLine (MODEL_VERSION cfg)), Print (SkipReason (PFloat a) ACCURACY_THRESHOLD),
        Print NeedsWork])"
    by (simp add: skip_deploy_def pull m(1))
  define r3 where "r3 =
       \<lparr>store = S,
        states = [(train, success), (evaluate, success), (check, success), (deploy, skipped)],
        events = map (Pair train) o1 @ map (Pair evaluate) o2
          @ map (Pair check) [Print (CheckLine (PFloat a) ACCURACY_THRESHOLD),
                              Print (DeployRejected ACCURACY_THRESHOLD)]\<rparr>"
  have s3: "schedule cfg ev
       \<lparr>store = S, states = [(train, success), (evaluate, success)],
        events = map (Pair train) o1 @ map (Pair evaluate) o2\<rparr> check = r3"
    by (simp add: schedule_def execute_def upstream_simps List.map_filter_def gate
          branch_skips_simps r3_def)
  have s4: "schedule cfg ev r3 deploy = r3"
    by (rule schedule_decided [of _ _ skipped]) (simp add: r3_def)
  define r5 where "r5 =
       \<lparr>store = S,
        states = [(train, success), (evaluate, success), (check, success), (deploy, skipped),
                  (skip, success)],
        events = events r3
          @ map (Pair skip) [Print (SkipLine (MODEL_VERSION cfg)),
               Print (SkipReason (PFloat a) ACCURACY_THRESHOLD), Print NeedsWork]\<rparr>"
  have s5: "schedule cfg ev r3 skip = r5"
    by (simp add: schedule_def execute_def upstream_simps List.map_filter_def skipper
          branch_skips_simps r3_def r5_def)
  define r6 where "r6 = r5\<lparr>states := states r5 @ [(notify, skipped)]\<rparr>"
  have s6: "schedule cfg ev r5 notify = r6"
    unfolding r6_def
    by (rule schedule_triggered) (simp_all add: r5_def upstream_simps List.map_filter_def)
  define r7 where "r7 = r6\<lparr>states := states r6 @ [(join, success)]\<rparr>"
  have s7: "schedule cfg ev r6 join = r7"
    by (simp add: schedule_def execute_def upstream_simps List.map_filter_def
          branch_skips_simps r5_def r6_def r7_def)
  have run: "dag_run cfg ev = r7"
    unfolding dag_run_def using r2
    by (simp add: S_def [symmetric] s3 s4 s5 s6 s7)
  show "states (dag_run cfg ev) =
           [(train, success), (evaluate, success), (check, success), (deploy, skipped),
            (skip, success), (notify, skipped), (join, success)]"
    by (simp add: run r7_def r6_def r5_def)
  show "filter (\<lambda>e. fst e = notify) (events (dag_run cfg ev)) = []"
    by (simp add: run r7_def r6_def r5_def r3_def filter_map comp_def)
  show "store (dag_run cfg ev) (''deploy_model'', ''deploy_info'') = None"
    by (simp add: run r7_def r6_def r5_def S_def)
  show "(notify, e) \<notin> set (events (dag_run cfg ev))"
    by (auto simp: run r7_def r6_def r5_def r3_def)
qed


lemma dag_run_deploy_path:
  assumes "ACCURACY_THRESHOLD \<le> py_round (uniform (fl (75 / 100)) (fl (95 / 100)) (draw1 ev)) 4"
  shows "states (dag_run cfg ev) =
           [(train, success), (evaluate, success), (check, success), (skip, skipped),
            (deploy, success), (notify, success), (join, success)]"
    and "\<exists>m. store (dag_run cfg ev) (''deploy_model'', ''deploy_info'') =
           Some (PDict [(''version'', PStr (MODEL_VERSION cfg)), (''metrics'', PDict m),
                        (''timestamp'', PStr (clock ev))])"
    and "map snd (filter (\<lambda>e. fst e = notify) (events (dag_run cfg ev))) =
           snd (snd (send_telegram_notification cfg (format ev) (Transport (endpoint ev))
                       (store (dag_run cfg ev))))"
proof -
  define a where "a = py_round (uniform (fl (75 / 100)) (fl (95 / 100)) (draw1 ev)) 4"
  have a: "ACCURACY_THRESHOLD \<le> a" using assms by (simp only: a_def)
  obtain m f o1 o2 where
    r2: "foldl (schedule cfg ev) \<lparr>store = Map.empty, states = [], events = []\<rparr>
           [train, evaluate] =
       \<lparr>store = Map.empty((''evaluate_model'', ''metrics'') \<mapsto> PDict m),
        states = [(train, success), (evaluate, success)],
        events = map (Pair train) o1 @ map (Pair evaluate) o2\<rparr>"
    and m: "map_of m ''accuracy'' = Some (PFloat a)" "map_of m ''f1_score'' = Some (PFloat f)"
    unfolding a_def using run_until_gate by blast
  define S where "S = Map.empty((''evaluate_model'', ''metrics'') \<mapsto> PDict m)"
  have pull: "xcom_pull S ''evaluate_model'' ''metrics'' = PDict m"
    by (simp add: S_def xcom_pull_def)
  have gate: "check_metrics S =
      (Inr (PStr ''deploy_model''), S,
       [Print (CheckLine (PFloat a) ACCURACY_THRESHOLD), Print (DeployAllowed ACCURACY_THRESHOLD)])"
    using check_metrics_number [OF pull, of a] m(1) a by simp
  define D where "D = S((''deploy_model'', ''deploy_info'') \<mapsto>
      PDict [(''version'', PStr (MODEL_VERSION cfg)), (''metrics'', PDict m),
             (''timestamp'', PStr (clock ev))])"
  obtain o4 where deployer: "deploy_model cfg ''deploy_model'' (clock ev) S =
      (Inr (PDict [(''status'', PStr ''deployed''), (''version'', PStr (MODEL_VERSION cfg))]),
       D, o4)"
    by (simp add: deploy_model_def pull m D_def xcom_push_def)
  have "\<exists>out. send_telegram_notification cfg (format ev) (Transport (endpoint ev)) D =
          (Inr PNone, D, out)"
    by (rule notifier_returns
          [where m = m
             and kvs = "[(''version'', PStr (MODEL_VERSION cfg)), (''metrics'', PDict m),
                         (''timestamp'', PStr (clock ev))]"])
       (simp_all add: D_def)
  then obtain o6 where notifier:
    "send_telegram_notification cfg (format ev) (Transport (endpoint ev)) D = (Inr PNone, D, o6)"
    by blast
  define r3 where "r3 =
       \<lparr>store = S,
        states = [(train, success), (evaluate, success), (check, success), (skip, skipped)],
        events = map (Pair train) o1 @ map (Pair evaluate) o2
          @ map (Pair check) [Print (CheckLine (PFloat a) ACCURACY_THRESHOLD),
                              Print (DeployAllowed ACCURACY_THRESHOLD)]\<rparr>"
  have s3: "schedule cfg ev
       \<lparr>store = S, states = [(train, success), (evaluate, success)],
        events = map (Pair train) o1 @ map (Pair evaluate) o2\<rparr> check = r3"
    by (simp add: schedule_def execute_def upstream_simps List.map_filter_def gate
          branch_skips_simps r3_def)
  define r4 where "r4 =
       \<lparr>store = D,
        states = [(train, success), (evaluate, success), (check, success), (skip, skipped),
                  (deploy, success)],
        events = events r3 @ map (Pair deploy) o4\<rparr>"
  have s4: "schedule cfg ev r3 deploy = r4"
    by (simp add: schedule_def execute_def upstream_simps List.map_filter_def deployer
          branch_skips_simps r3_def r4_def)
  have s5: "schedule cfg ev r4 skip = r4"
    by (rule schedule_decided [of _ _ skipped]) (simp add: r4_def)
  define r6 where "r6 =
       \<lparr>store = D,
        states = [(train, success), (evaluate, success), (check, success), (skip, skipped),
                  (deploy, success), (notify, success)],
        events = events r4 @ map (Pair notify) o6\<rparr>"
  have s6: "schedule cfg ev r4 notify = r6"
    by (simp add: schedule_def execute_def upstream_simps List.map_filter_def notifier
          branch_skips_simps r4_def r6_def)
  define r7 where "r7 = r6\<lparr>states := states r6 @ [(join, success)]\<rparr>"
  have s7: "schedule cfg ev r6 join = r7"
    by (simp add: schedule_def execute_def upstream_simps List.map_filter_def
          branch_skips_simps r6_def r7_def)
  have run: "dag_run cfg ev = r7"
    unfolding dag_run_def using r2
    by (simp add: S_def [symmetric] s3 s4 s5 s6 s7)
  show "states (dag_run cfg ev) =
           [(train, success), (evaluate, success), (check, success), (skip, skipped),
            (deploy, success), (notify, success), (join, success)]"
    by (simp add: run r7_def r6_def)
  show "\<exists>m. store (dag_run cfg ev) (''deploy_model'', ''deploy_info'') =
           Some (PDict [(''version'', PStr (MODEL_VERSION cfg)), (''metrics'', PDict m),
                        (''timestamp'', PStr (clock ev))])"
    by (simp add: run r7_def r6_def D_def)
  show "map snd (filter (\<lambda>e. fst e = notify) (events (dag_run cfg ev))) =
           snd (snd (send_telegram_notification cfg (format ev) (Transport (endpoint ev))
                       (store (dag_run cfg ev))))"
    by (simp add: run r7_def r6_def r4_def r3_def notifier filter_map comp_def)
qed

lemma skip_env_accuracy:
  "py_round (uniform (fl (75 / 100)) (fl (95 / 100)) (draw1 skip_env)) 4 < ACCURACY_THRESHOLD"
proof -
  have "fl (7562 / 10000) < fl (8 / 10)" by code_simp
  moreover have "draw1 skip_env = 2 ^ 48" by (simp add: skip_env_def)
  ultimately show ?thesis
    unfolding ACCURACY_THRESHOLD_def by (simp only: example_draws example_rounds)
qed

lemma deploy_env_accuracy:
  "ACCURACY_THRESHOLD \<le> py_round (uniform (fl (75 / 100)) (fl (95 / 100)) (draw1 deploy_env)) 4"
proof -
  have "py_round (uniform (fl (75 / 100)) (fl (95 / 100)) (2 ^ 51)) 4 = fl (8 / 10)"
    by code_simp
  moreover have "draw1 deploy_env = 2 ^ 51" by (simp add: deploy_env_def)
  ultimately show ?thesis
    unfolding ACCURACY_THRESHOLD_def by (simp only: order_refl)
qed

text \<open>
  Claim C3, as stated, fails. The notifier's only upstream task is the deployer
  (\<^verbatim>\<open>check >> deploy >> notify\<close>, \<^verbatim>\<open>check >> skip >> join\<close>). In the run with the
  accuracy \<open>0.7562\<close> the gate picks the skipper, the skipper succeeds, the deployer is
  skipped, and the notifier is skipped with it: it prints no "no deployment info" line.
  The join succeeds all the same.
\<close>

theorem notifier_on_skip_path_counterexample:
  "map_of (states (dag_run example_config skip_env)) skip = Some success
   \<and> map_of (states (dag_run example_config skip_env)) notify = Some skipped
   \<and> (notify, Print NoDeployInfo) \<notin> set (events (dag_run example_config skip_env))
   \<and> map_of (states (dag_run example_config skip_env)) join = Some success"
  using dag_run_skip_path(1) [OF skip_env_accuracy, where cfg = example_config]
        dag_run_skip_path(4)
          [OF skip_env_accuracy, where cfg = example_config and e = "Print NoDeployInfo"]
  by simp

text \<open>
  Claim C3, amended. The notifier runs only after the deployer succeeded. When the
  accuracy reaches the threshold, the deployer, then the notifier, then the join succeed
  and the skipper is skipped. When it does not, the skipper succeeds, the deployer and
  the notifier are skipped, the notifier produces no event at all, and the join succeeds.
\<close>

theorem notifier_follows_deployer:
  "(ACCURACY_THRESHOLD \<le> py_round (uniform (fl (75 / 100)) (fl (95 / 100)) (draw1 ev)) 4
      \<longrightarrow> states (dag_run cfg ev) =
            [(train, success), (evaluate, success), (check, success), (skip, skipped),
             (deploy, success), (notify, success), (join, success)])
   \<and> (py_round (uniform (fl (75 / 100)) (fl (95 / 100)) (draw1 ev)) 4 < ACCURACY_THRESHOLD
      \<longrightarrow> states (dag_run cfg ev) =
            [(train, success), (evaluate, success), (check, success), (deploy, skipped),
             (skip, success), (notify, skipped), (join, success)]
          \<and> (notify, e) \<notin> set (events (dag_run cfg ev)))"
  using dag_run_deploy_path(1) [where ev = ev and cfg = cfg]
        dag_run_skip_path(1) [where ev = ev and cfg = cfg]
        dag_run_skip_path(4) [where ev = ev and cfg = cfg and e = e]
  by blast

text \<open>The theorem at a run with the accuracy \<open>0.8\<close> and at a run with the accuracy \<open>0.7562\<close>.\<close>

theorem notifier_follows_deployer_witness:
  "states (dag_run example_config deploy_env) =
     [(train, success), (evaluate, success), (check, success), (skip, skipped),
      (deploy, success), (notify, success), (join, success)]
   \<and> states (dag_run unset_config skip_env) =
     [(train, success), (evaluate, success), (check, success), (deploy, skipped),
      (skip, success), (notify, skipped), (join, success)]
   \<and> (notify, Print CredsNotConfigured) \<notin> set (events (dag_run unset_config skip_env))"
  using notifier_follows_deployer [where ev = deploy_env and cfg = example_config]
        notifier_follows_deployer
          [where ev = skip_env and cfg = unset_config and e = "Print CredsNotConfigured"]
        deploy_env_accuracy skip_env_accuracy
  by blast

section \<open>The notifier\<close>

lemma deployed_store_info:
  "deployed_store (''deploy_model'', ''deploy_info'') =
     Some (PDict [(''version'', PStr ''v1.0.0''), (''metrics'', example_metrics),
                  (''timestamp'', PStr ''2025-01-01T00:00:00'')])"
  by (simp add: deployed_store_def xcom_push_def)

lemma evaluated_store_info: "evaluated_store (''deploy_model'', ''deploy_info'') = None"
  by (simp add: evaluated_store_def xcom_push_def)

text \<open>A run whose store holds no deployment record took the skip branch.\<close>

lemma run_without_deploy_info:
  assumes "store (dag_run cfg ev) (''deploy_model'', ''deploy_info'') = None"
  shows "py_round (uniform (fl (75 / 100)) (fl (95 / 100)) (draw1 ev)) 4 < ACCURACY_THRESHOLD"
proof (rule ccontr)
  assume "\<not> ?thesis"
  then have "ACCURACY_THRESHOLD \<le> py_round (uniform (fl (75 / 100)) (fl (95 / 100)) (draw1 ev)) 4"
    by simp
  then have "\<exists>m. store (dag_run cfg ev) (''deploy_model'', ''deploy_info'') =
           Some (PDict [(''version'', PStr (MODEL_VERSION cfg)), (''metrics'', PDict m),
                        (''timestamp'', PStr (clock ev))])"
    by (rule dag_run_deploy_path(2))
  with assms show False by simp
qed

text \<open>A run whose store holds a deployment record took the deploy branch.\<close>

lemma run_with_deploy_info:
  assumes "store (dag_run cfg ev) (''deploy_model'', ''deploy_info'') = Some v"
  shows "ACCURACY_THRESHOLD \<le> py_round (uniform (fl (75 / 100)) (fl (95 / 100)) (draw1 ev)) 4"
proof (rule ccontr)
  assume "\<not> ?thesis"
  then have "py_round (uniform (fl (75 / 100)) (fl (95 / 100)) (draw1 ev)) 4 < ACCURACY_THRESHOLD"
    by simp
  then have "store (dag_run cfg ev) (''deploy_model'', ''deploy_info'') = None"
    by (rule dag_run_skip_path(3))
  with assms show False by simp
qed

text \<open>
  Claim C4, as stated, fails. In the run with the accuracy \<open>0.7562\<close> the store holds no
  deployment record at the end, and the notifier has not logged the "no deployment
  info" line: the scheduler skipped it.
\<close>

theorem notifier_without_deploy_info_counterexample:
  "store (dag_run unset_config skip_env) (''deploy_model'', ''deploy_info'') = None
   \<and> map_of (states (dag_run unset_config skip_env)) notify = Some skipped
   \<and> (notify, Print NoDeployInfo) \<notin> set (events (dag_run unset_config skip_env))"
  using dag_run_skip_path(1) [OF skip_env_accuracy, where cfg = unset_config]
        dag_run_skip_path(3) [OF skip_env_accuracy, where cfg = unset_config]
        dag_run_skip_path(4)
          [OF skip_env_accuracy, where cfg = unset_config and e = "Print NoDeployInfo"]
  by simp

text \<open>
  Claim C4, amended. In every run whose store holds no deployment record the scheduler
  skips the notifier: it is not executed, so it logs nothing, posts nothing and raises
  nothing. The notifier's callable, when it is called on a store that holds nothing
  under \<open>deploy_info\<close> of the deployer, prints the "no deployment info" line and
  returns \<^verbatim>\<open>None\<close>: it posts nothing and raises nothing, whatever the credentials and
  whatever the call would have done.
\<close>

theorem notification_without_deploy_info:
  "(store (dag_run cfg ev) (''deploy_model'', ''deploy_info'') = None
      \<longrightarrow> map_of (states (dag_run cfg ev)) notify = Some skipped
          \<and> (notify, e) \<notin> set (events (dag_run cfg ev)))
   \<and> (st (''deploy_model'', ''deploy_info'') = None
      \<longrightarrow> send_telegram_notification cfg fmt resp st = (Inr PNone, st, [Print NoDeployInfo]))"
proof (intro conjI impI)
  assume "store (dag_run cfg ev) (''deploy_model'', ''deploy_info'') = None"
  then have a: "py_round (uniform (fl (75 / 100)) (fl (95 / 100)) (draw1 ev)) 4 < ACCURACY_THRESHOLD"
    by (rule run_without_deploy_info)
  show "map_of (states (dag_run cfg ev)) notify = Some skipped"
    by (simp add: dag_run_skip_path(1) [OF a])
  show "(notify, e) \<notin> set (events (dag_run cfg ev))"
    by (rule dag_run_skip_path(4) [OF a])
next
  assume "st (''deploy_model'', ''deploy_info'') = None"
  then show "send_telegram_notification cfg fmt resp st = (Inr PNone, st, [Print NoDeployInfo])"
    by (simp add: send_telegram_notification_def xcom_pull_def)
qed

text \<open>
  The theorem at the run with the accuracy \<open>0.7562\<close> and, for the callable, at the store
  the evaluator leaves, with both credentials set.
\<close>

theorem notification_without_deploy_info_witness:
  "map_of (states (dag_run example_config skip_env)) notify = Some skipped
   \<and> (notify, Print NoDeployInfo) \<notin> set (events (dag_run example_config skip_env))
   \<and> send_telegram_notification example_config example_format (Transport (Raises ''timeout''))
        evaluated_store =
       (Inr PNone, evaluated_store, [Print NoDeployInfo])"
  using notification_without_deploy_info
          [where cfg = example_config and ev = skip_env and e = "Print NoDeployInfo"
             and st = evaluated_store and fmt = example_format
             and resp = "Transport (Raises ''timeout'')"]
        dag_run_skip_path(3) [OF skip_env_accuracy, where cfg = example_config]
        evaluated_store_info
  by blast



text \<open>
  The notifier on a deployment record whose \<open>metrics\<close> entry is a dictionary (or is
  missing), with both credentials non-empty: one call of \<^verbatim>\<open>requests.post\<close>, with timeout
  10, and one line printed for whatever the endpoint makes the call do.
\<close>

lemma notifier_posts:
  assumes "st (''deploy_model'', ''deploy_info'') = Some v"
    and "truthy v"
    and "py_get v ''metrics'' (PDict []) = Inr (PDict m)"
    and "TELEGRAM_TOKEN cfg = Some token" and "token \<noteq> []"
    and "TELEGRAM_CHAT_ID cfg = Some chat" and "chat \<noteq> []"
  shows "\<exists>text.
           (\<forall>t. send_telegram_notification cfg fmt (Transport t) st =
             (Inr PNone, st,
              [Post (''https://api.telegram.org/bot'' @ token @ ''/sendMessage'')
                    [(''chat_id'', PStr chat), (''text'', PStr text),
                     (''parse_mode'', PStr ''Markdown'')]
                    10,
               Print (case t of
                        Response status_code body \<Rightarrow>
                          if status_code = 200 then SentOk else SendError body
                      | Raises e \<Rightarrow> SendException e)]))
         \<and> (\<forall>b. send_telegram_notification cfg fmt (Interrupted b) st =
             (Inl (BaseException b), st,
              [Post (''https://api.telegram.org/bot'' @ token @ ''/sendMessage'')
                    [(''chat_id'', PStr chat), (''text'', PStr text),
                     (''parse_mode'', PStr ''Markdown'')]
                    10]))"
proof -
  obtain kvs where v: "v = PDict kvs"
    using assms(3) by (cases v) simp_all
  have s: "send_telegram_notification cfg fmt resp st =
          post_notification (MODEL_VERSION cfg) fmt resp (Some token) (Some chat) v st" for resp
    using assms(1,2,4-7) by (simp add: send_telegram_notification_def xcom_pull_def)
  show ?thesis
    using assms(3) unfolding s v post_notification_def Let_def
    by (auto split: option.split transport.split)
qed

lemma notifier_simulates:
  assumes "st (''deploy_model'', ''deploy_info'') = Some v"
    and "truthy v"
    and "not_configured (TELEGRAM_TOKEN cfg) \<or> not_configured (TELEGRAM_CHAT_ID cfg)"
  shows "send_telegram_notification cfg fmt resp st =
           (Inr PNone, st,
            [Print CredsNotConfigured, Print (SimulatedNotification (MODEL_VERSION cfg))])"
  using assms by (simp add: send_telegram_notification_def xcom_pull_def)


text \<open>In a run that took the deploy branch the notifier is called on a deployment record.\<close>

lemma run_notifier_events:
  assumes "store (dag_run cfg ev) (''deploy_model'', ''deploy_info'') = Some v"
  shows "map_of (states (dag_run cfg ev)) notify = Some success"
    and "truthy v"
    and "\<exists>m. py_get v ''metrics'' (PDict []) = Inr (PDict m)"
    and "map snd (filter (\<lambda>x. fst x = notify) (events (dag_run cfg ev))) =
           snd (snd (send_telegram_notification cfg (format ev) (Transport (endpoint ev))
                       (store (dag_run cfg ev))))"
proof -
  have a: "ACCURACY_THRESHOLD \<le> py_round (uniform (fl (75 / 100)) (fl (95 / 100)) (draw1 ev)) 4"
    using assms by (rule run_with_deploy_info)
  obtain m where "store (dag_run cfg ev) (''deploy_model'', ''deploy_info'') =
           Some (PDict [(''version'', PStr (MODEL_VERSION cfg)), (''metrics'', PDict m),
                        (''timestamp'', PStr (clock ev))])"
    using dag_run_deploy_path(2) [OF a] by blast
  with assms have v: "v = PDict [(''version'', PStr (MODEL_VERSION cfg)), (''metrics'', PDict m),
                        (''timestamp'', PStr (clock ev))]"
    by simp
  show "map_of (states (dag_run cfg ev)) notify = Some success"
    by (simp add: dag_run_deploy_path(1) [OF a])
  show "truthy v" by (simp add: v)
  show "\<exists>m. py_get v ''metrics'' (PDict []) = Inr (PDict m)" by (simp add: v)
  show "map snd (filter (\<lambda>x. fst x = notify) (events (dag_run cfg ev))) =
           snd (snd (send_telegram_notification cfg (format ev) (Transport (endpoint ev))
                       (store (dag_run cfg ev))))"
    by (rule dag_run_deploy_path(3) [OF a])
qed

text \<open>
  Claim C6, as stated, fails: a credential that is set to the empty string is set, and
  the notifier treats it as not configured. With the token set to the empty string and
  the deployment record present, the notifier prints the simulated notification and
  posts nothing.
\<close>

theorem notification_empty_token_counterexample:
  "TELEGRAM_TOKEN empty_token_config = Some []
   \<and> TELEGRAM_CHAT_ID empty_token_config = Some ''42''
   \<and> deployed_store (''deploy_model'', ''deploy_info'') =
       Some (PDict [(''version'', PStr ''v1.0.0''), (''metrics'', example_metrics),
                    (''timestamp'', PStr ''2025-01-01T00:00:00'')])
   \<and> snd (snd (send_telegram_notification empty_token_config example_format
                  (Transport (Response 200 ''ok'')) deployed_store)) =
       [Print CredsNotConfigured, Print (SimulatedNotification ''v1.0.0'')]"
  by (simp add: send_telegram_notification_def xcom_pull_def deployed_store_info
        empty_token_config_def)

text \<open>
  Claim C6, amended. Four statements, the first two about the notifier's callable and
  the last two about a run whose store holds a deployment record.
  \<^item> On a deployment record (a truthy value whose \<open>metrics\<close> entry is a dictionary or is
    missing), with both credentials set to non-empty strings, the notifier calls
    \<^verbatim>\<open>requests.post\<close> exactly once, with timeout 10, on the bot's \<open>sendMessage\<close>
    address. Whatever the endpoint makes the call do, the notifier then prints one line
    (success for status 200, the response text for any other status, the exception for
    a transport exception) and returns \<^verbatim>\<open>None\<close>. An exception that is not an instance
    of \<^verbatim>\<open>Exception\<close> is not caught: the notifier raises it, after the one call.
  \<^item> On a deployment record, with a credential set to the empty string, the notifier
    prints the simulated notification and returns \<^verbatim>\<open>None\<close>: it posts nothing.
  \<^item> In a run whose store holds a deployment record, with both credentials set to
    non-empty strings, the notifier succeeds and its events are exactly the one call,
    with timeout 10, and the one line for what the endpoint made the call do.
  \<^item> In a run whose store holds a deployment record, with a credential set to the empty
    string, the notifier's events are the two lines of the simulated notification.
\<close>

theorem notification_posts_once:
  "(st (''deploy_model'', ''deploy_info'') = Some v \<and> truthy v
      \<and> py_get v ''metrics'' (PDict []) = Inr (PDict m)
      \<and> TELEGRAM_TOKEN cfg = Some token \<and> token \<noteq> []
      \<and> TELEGRAM_CHAT_ID cfg = Some chat \<and> chat \<noteq> []
    \<longrightarrow> (\<exists>text.
           send_telegram_notification cfg fmt (Transport t) st =
             (Inr PNone, st,
              [Post (''https://api.telegram.org/bot'' @ token @ ''/sendMessage'')
                    [(''chat_id'', PStr chat), (''text'', PStr text),
                     (''parse_mode'', PStr ''Markdown'')]
                    10,
               Print (case t of
                        Response status_code body \<Rightarrow>
                          if status_code = 200 then SentOk else SendError body
                      | Raises e \<Rightarrow> SendException e)])
         \<and> send_telegram_notification cfg fmt (Interrupted b) st =
             (Inl (BaseException b), st,
              [Post (''https://api.telegram.org/bot'' @ token @ ''/sendMessage'')
                    [(''chat_id'', PStr chat), (''text'', PStr text),
                     (''parse_mode'', PStr ''Markdown'')]
                    10])))
   \<and> (st (''deploy_model'', ''deploy_info'') = Some v \<and> truthy v
      \<and> (TELEGRAM_TOKEN cfg = Some [] \<or> TELEGRAM_CHAT_ID cfg = Some [])
    \<longrightarrow> send_telegram_notification cfg fmt resp st =
          (Inr PNone, st,
           [Print CredsNotConfigured, Print (SimulatedNotification (MODEL_VERSION cfg))]))
   \<and> (store (dag_run cfg ev) (''deploy_model'', ''deploy_info'') = Some w
      \<and> TELEGRAM_TOKEN cfg = Some token \<and> token \<noteq> []
      \<and> TELEGRAM_CHAT_ID cfg = Some chat \<and> chat \<noteq> []
    \<longrightarrow> map_of (states (dag_run cfg ev)) notify = Some success
        \<and> (\<exists>text.
             map snd (filter (\<lambda>x. fst x = notify) (events (dag_run cfg ev))) =
               [Post (''https://api.telegram.org/bot'' @ token @ ''/sendMessage'')
                     [(''chat_id'', PStr chat), (''text'', PStr text),
                      (''parse_mode'', PStr ''Markdown'')]
                     10,
                Print (case endpoint ev of
                         Response status_code body \<Rightarrow>
                           if status_code = 200 then SentOk else SendError body
                       | Raises e \<Rightarrow> SendException e)]))
   \<and> (store (dag_run cfg ev) (''deploy_model'', ''deploy_info'') = Some w
      \<and> (TELEGRAM_TOKEN cfg = Some [] \<or> TELEGRAM_CHAT_ID cfg = Some [])
    \<longrightarrow> map snd (filter (\<lambda>x. fst x = notify) (events (dag_run cfg ev))) =
          [Print CredsNotConfigured, Print (SimulatedNotification (MODEL_VERSION cfg))])"
proof (intro conjI impI)
  assume h: "st (''deploy_model'', ''deploy_info'') = Some v \<and> truthy v
      \<and> py_get v ''metrics'' (PDict []) = Inr (PDict m)
      \<and> TELEGRAM_TOKEN cfg = Some token \<and> token \<noteq> []
      \<and> TELEGRAM_CHAT_ID cfg = Some chat \<and> chat \<noteq> []"
  show "\<exists>text.
           send_telegram_notification cfg fmt (Transport t) st =
             (Inr PNone, st,
              [Post (''https://api.telegram.org/bot'' @ token @ ''/sendMessage'')
                    [(''chat_id'', PStr chat), (''text'', PStr text),
                     (''parse_mode'', PStr ''Markdown'')]
                    10,
               Print (case t of
                        Response status_code body \<Rightarrow>
                          if status_code = 200 then SentOk else SendError body
                      | Raises e \<Rightarrow> SendException e)])
         \<and> send_telegram_notification cfg fmt (Interrupted b) st =
             (Inl (BaseException b), st,
              [Post (''https://api.telegram.org/bot'' @ token @ ''/sendMessage'')
                    [(''chat_id'', PStr chat), (''text'', PStr text),
                     (''parse_mode'', PStr ''Markdown'')]
                    10])"
    using notifier_posts [where st = st and v = v and m = m and cfg = cfg and token = token
                            and chat = chat and fmt = fmt] h
    by blast
next
  assume "st (''deploy_model'', ''deploy_info'') = Some v \<and> truthy v
      \<and> (TELEGRAM_TOKEN cfg = Some [] \<or> TELEGRAM_CHAT_ID cfg = Some [])"
  then show "send_telegram_notification cfg fmt resp st =
          (Inr PNone, st,
           [Print CredsNotConfigured, Print (SimulatedNotification (MODEL_VERSION cfg))])"
    by (intro notifier_simulates [where v = v]) auto
next
  assume h: "store (dag_run cfg ev) (''deploy_model'', ''deploy_info'') = Some w
      \<and> TELEGRAM_TOKEN cfg = Some token \<and> token \<noteq> []
      \<and> TELEGRAM_CHAT_ID cfg = Some chat \<and> chat \<noteq> []"
  then have w: "store (dag_run cfg ev) (''deploy_model'', ''deploy_info'') = Some w" by simp
  show "map_of (states (dag_run cfg ev)) notify = Some success"
    by (rule run_notifier_events(1) [OF w])
  obtain mw where mw: "py_get w ''metrics'' (PDict []) = Inr (PDict mw)"
    using run_notifier_events(3) [OF w] by blast
  obtain msg where
    "send_telegram_notification cfg (format ev) (Transport (endpoint ev)) (store (dag_run cfg ev)) =
       (Inr PNone, store (dag_run cfg ev),
        [Post (''https://api.telegram.org/bot'' @ token @ ''/sendMessage'')
              [(''chat_id'', PStr chat), (''text'', PStr msg),
               (''parse_mode'', PStr ''Markdown'')]
              10,
         Print (case endpoint ev of
                  Response status_code body \<Rightarrow>
                    if status_code = 200 then SentOk else SendError body
                | Raises e \<Rightarrow> SendException e)])"
    using notifier_posts [where st = "store (dag_run cfg ev)" and v = w and m = mw and cfg = cfg
                            and token = token and chat = chat and fmt = "format ev"]
          w run_notifier_events(2) [OF w] mw h
    by blast
  then show "\<exists>text.
             map snd (filter (\<lambda>x. fst x = notify) (events (dag_run cfg ev))) =
               [Post (''https://api.telegram.org/bot'' @ token @ ''/sendMessage'')
                     [(''chat_id'', PStr chat), (''text'', PStr text),
                      (''parse_mode'', PStr ''Markdown'')]
                     10,
                Print (case endpoint ev of
                         Response status_code body \<Rightarrow>
                           if status_code = 200 then SentOk else SendError body
                       | Raises e \<Rightarrow> SendException e)]"
    by (simp add: run_notifier_events(4) [OF w])
next
  assume h: "store (dag_run cfg ev) (''deploy_model'', ''deploy_info'') = Some w
      \<and> (TELEGRAM_TOKEN cfg = Some [] \<or> TELEGRAM_CHAT_ID cfg = Some [])"
  then have w: "store (dag_run cfg ev) (''deploy_model'', ''deploy_info'') = Some w" by simp
  have "send_telegram_notification cfg (format ev) (Transport (endpoint ev)) (store (dag_run cfg ev)) =
          (Inr PNone, store (dag_run cfg ev),
           [Print CredsNotConfigured, Print (SimulatedNotification (MODEL_VERSION cfg))])"
    by (rule notifier_simulates [where st = "store (dag_run cfg ev)" and v = w])
       (use h run_notifier_events(2) [OF w] in auto)
  then show "map snd (filter (\<lambda>x. fst x = notify) (events (dag_run cfg ev))) =
          [Print CredsNotConfigured, Print (SimulatedNotification (MODEL_VERSION cfg))]"
    by (simp add: run_notifier_events(4) [OF w])
qed

text \<open>
  The theorem at the store the deployer leaves with an endpoint that answers 500, at the
  same store with the token set to the empty string, and at the run with the accuracy
  \<open>0.8\<close>, whose endpoint answers 500.
\<close>

theorem notification_posts_once_witness:
  "(\<exists>text.
      send_telegram_notification example_config example_format
        (Transport (Response 500 ''Internal Server Error'')) deployed_store =
        (Inr PNone, deployed_store,
         [Post (''https://api.telegram.org/bot'' @ ''123:abc'' @ ''/sendMessage'')
               [(''chat_id'', PStr ''42''), (''text'', PStr text),
                (''parse_mode'', PStr ''Markdown'')]
               10,
          Print (SendError ''Internal Server Error'')]))
   \<and> send_telegram_notification empty_token_config example_format
        (Transport (Response 200 ''ok'')) deployed_store =
        (Inr PNone, deployed_store,
         [Print CredsNotConfigured, Print (SimulatedNotification ''v1.0.0'')])
   \<and> map_of (states (dag_run example_config deploy_env)) notify = Some success
   \<and> (\<exists>text.
        map snd (filter (\<lambda>x. fst x = notify) (events (dag_run example_config deploy_env))) =
          [Post (''https://api.telegram.org/bot'' @ ''123:abc'' @ ''/sendMessage'')
                [(''chat_id'', PStr ''42''), (''text'', PStr text),
                 (''parse_mode'', PStr ''Markdown'')]
                10,
           Print (SendError ''Internal Server Error'')])"
proof -
  obtain mw where w: "store (dag_run example_config deploy_env) (''deploy_model'', ''deploy_info'') =
      Some (PDict [(''version'', PStr (MODEL_VERSION example_config)), (''metrics'', PDict mw),
                   (''timestamp'', PStr (clock deploy_env))])"
    using dag_run_deploy_path(2) [OF deploy_env_accuracy] by blast
  have c: "TELEGRAM_TOKEN example_config = Some ''123:abc''" "''123:abc'' \<noteq> []"
    "TELEGRAM_CHAT_ID example_config = Some ''42''" "''42'' \<noteq> []"
    by (simp_all add: example_config_def)
  have e: "TELEGRAM_TOKEN empty_token_config = Some []"
    "MODEL_VERSION empty_token_config = ''v1.0.0''"
    by (simp_all add: empty_token_config_def)
  have d: "truthy (PDict [(''version'', PStr ''v1.0.0''), (''metrics'', example_metrics),
                  (''timestamp'', PStr ''2025-01-01T00:00:00'')])"
    "py_get (PDict [(''version'', PStr ''v1.0.0''), (''metrics'', example_metrics),
                  (''timestamp'', PStr ''2025-01-01T00:00:00'')]) ''metrics'' (PDict []) =
       Inr (PDict [(''accuracy'', PFloat (fl (92 / 100))), (''precision'', PFloat (fl (85 / 100))),
                   (''recall'', PFloat (fl (88 / 100))), (''f1_score'', PFloat (fl (865 / 1000)))])"
    unfolding example_metrics_def by simp_all
  have r: "endpoint deploy_env = Response 500 ''Internal Server Error''"
    by (simp add: deploy_env_def)
  note full = notification_posts_once
        [where st = deployed_store and cfg = example_config and fmt = example_format
           and t = "Response 500 ''Internal Server Error''" and token = "''123:abc''"
           and chat = "''42''" and ev = deploy_env
           and v = "PDict [(''version'', PStr ''v1.0.0''), (''metrics'', example_metrics),
                           (''timestamp'', PStr ''2025-01-01T00:00:00'')]"
           and m = "[(''accuracy'', PFloat (fl (92 / 100))), (''precision'', PFloat (fl (85 / 100))),
                     (''recall'', PFloat (fl (88 / 100))), (''f1_score'', PFloat (fl (865 / 1000)))]"
           and w = "PDict [(''version'', PStr (MODEL_VERSION example_config)),
                           (''metrics'', PDict mw), (''timestamp'', PStr (clock deploy_env))]"]
  note empty = notification_posts_once
        [where st = deployed_store and cfg = empty_token_config and fmt = example_format
           and resp = "Transport (Response 200 ''ok'')"
           and v = "PDict [(''version'', PStr ''v1.0.0''), (''metrics'', example_metrics),
                           (''timestamp'', PStr ''2025-01-01T00:00:00'')]"]
  have 1: "\<exists>text.
      send_telegram_notification example_config example_format
        (Transport (Response 500 ''Internal Server Error'')) deployed_store =
        (Inr PNone, deployed_store,
         [Post (''https://api.telegram.org/bot'' @ ''123:abc'' @ ''/sendMessage'')
               [(''chat_id'', PStr ''42''), (''text'', PStr text),
                (''parse_mode'', PStr ''Markdown'')]
               10,
          Print (SendError ''Internal Server Error'')])"
    using full [THEN conjunct1, THEN mp, OF conjI [OF deployed_store_info
                  conjI [OF d(1) conjI [OF d(2) conjI [OF c(1) conjI [OF c(2) conjI [OF c(3) c(4)]]]]]]]
    by auto
  have 2: "send_telegram_notification empty_token_config example_format
        (Transport (Response 200 ''ok'')) deployed_store =
        (Inr PNone, deployed_store,
         [Print CredsNotConfigured, Print (SimulatedNotification ''v1.0.0'')])"
    using empty [THEN conjunct2, THEN conjunct1, THEN mp,
                 OF conjI [OF deployed_store_info conjI [OF d(1) disjI1 [OF e(1)]]]]
    by (simp only: e(2))
  have 3: "map_of (states (dag_run example_config deploy_env)) notify = Some success
     \<and> (\<exists>text.
        map snd (filter (\<lambda>x. fst x = notify) (events (dag_run example_config deploy_env))) =
          [Post (''https://api.telegram.org/bot'' @ ''123:abc'' @ ''/sendMessage'')
                [(''chat_id'', PStr ''42''), (''text'', PStr text),
                 (''parse_mode'', PStr ''Markdown'')]
                10,
           Print (SendError ''Internal Server Error'')])"
    using full [THEN conjunct2, THEN conjunct2, THEN conjunct1, THEN mp,
                OF conjI [OF w conjI [OF c(1) conjI [OF c(2) conjI [OF c(3) c(4)]]]]]
    by (simp add: r)
  show ?thesis
    using 1 2 3 by blast
qed

section \<open>The deployer and the skipper\<close>

lemma evaluated_store_metrics:
  "xcom_pull evaluated_store ''evaluate_model'' ''metrics'' = example_metrics"
  by (simp add: evaluated_store_def xcom_pull_def xcom_push_def)

text \<open>
  Claim C7. When the deployer finds the accuracy and the F1 score in the metrics record,
  the store it leaves is the store it found with the record \<open>{version, metrics,
  timestamp}\<close> under the key \<open>deploy_info\<close> of the running task. The skipper leaves the
  store as it found it. No callable of the DAG other than the deployer's changes what
  the store holds under the key \<open>deploy_info\<close>, of any task. So at the end of a run
  that took the deploy branch the store holds the record \<open>{version, metrics, timestamp}\<close>
  under \<open>deploy_info\<close> of the deployer, and at the end of a run that took the skip
  branch it holds nothing there.
\<close>

theorem deploy_info_writers:
  "(py_getitem (xcom_pull st ''evaluate_model'' ''metrics'') ''accuracy'' = Inr a
      \<and> py_getitem (xcom_pull st ''evaluate_model'' ''metrics'') ''f1_score'' = Inr f
    \<longrightarrow> fst (snd (deploy_model cfg ti now st)) =
          st((ti, ''deploy_info'') \<mapsto>
             PDict [(''version'', PStr (MODEL_VERSION cfg)),
                    (''metrics'', xcom_pull st ''evaluate_model'' ''metrics''),
                    (''timestamp'', PStr now)]))
   \<and> fst (snd (skip_deploy cfg st)) = st
   \<and> (t \<noteq> deploy
        \<longrightarrow> fst (snd (callable cfg ev t st)) (tid, ''deploy_info'') = st (tid, ''deploy_info''))
   \<and> (ACCURACY_THRESHOLD \<le> py_round (uniform (fl (75 / 100)) (fl (95 / 100)) (draw1 ev)) 4
        \<longrightarrow> (\<exists>m. store (dag_run cfg ev) (''deploy_model'', ''deploy_info'') =
               Some (PDict [(''version'', PStr (MODEL_VERSION cfg)), (''metrics'', PDict m),
                            (''timestamp'', PStr (clock ev))])))
   \<and> (py_round (uniform (fl (75 / 100)) (fl (95 / 100)) (draw1 ev)) 4 < ACCURACY_THRESHOLD
        \<longrightarrow> store (dag_run cfg ev) (''deploy_model'', ''deploy_info'') = None)"
proof (intro conjI impI)
  assume "py_getitem (xcom_pull st ''evaluate_model'' ''metrics'') ''accuracy'' = Inr a
          \<and> py_getitem (xcom_pull st ''evaluate_model'' ''metrics'') ''f1_score'' = Inr f"
  then show "fst (snd (deploy_model cfg ti now st)) =
          st((ti, ''deploy_info'') \<mapsto>
             PDict [(''version'', PStr (MODEL_VERSION cfg)),
                    (''metrics'', xcom_pull st ''evaluate_model'' ''metrics''),
                    (''timestamp'', PStr now)])"
    by (simp add: deploy_model_def Let_def xcom_push_def)
next
  show "fst (snd (skip_deploy cfg st)) = st"
    by (simp add: skip_deploy_def Let_def split: sum.split)
next
  assume t: "t \<noteq> deploy"
  have notifier: "fst (snd (send_telegram_notification cfg fmt resp st)) = st" for fmt resp
    unfolding send_telegram_notification_def post_notification_def Let_def
    by (simp split: sum.split http_outcome.split transport.split)
  have gate: "fst (snd (check_metrics st)) = st"
    by (simp add: check_metrics_def Let_def split: sum.split bool.split)
  have evaluator:
    "fst (snd (evaluate_model cfg i k1 k2 k3 st)) (tid, ''deploy_info'') = st (tid, ''deploy_info'')"
    for i k1 k2 k3
    unfolding evaluate_model_returns Let_def xcom_push_def by simp
  show "fst (snd (callable cfg ev t st)) (tid, ''deploy_info'') = st (tid, ''deploy_info'')"
    using t notifier gate evaluator
    by (cases t) (simp_all add: train_model_def skip_deploy_def Let_def split: sum.split)
next
  assume "ACCURACY_THRESHOLD \<le> py_round (uniform (fl (75 / 100)) (fl (95 / 100)) (draw1 ev)) 4"
  then show "\<exists>m. store (dag_run cfg ev) (''deploy_model'', ''deploy_info'') =
               Some (PDict [(''version'', PStr (MODEL_VERSION cfg)), (''metrics'', PDict m),
                            (''timestamp'', PStr (clock ev))])"
    by (rule dag_run_deploy_path(2))
next
  assume "py_round (uniform (fl (75 / 100)) (fl (95 / 100)) (draw1 ev)) 4 < ACCURACY_THRESHOLD"
  then show "store (dag_run cfg ev) (''deploy_model'', ''deploy_info'') = None"
    by (rule dag_run_skip_path(3))
qed

text \<open>
  The theorem at the store the evaluator leaves (the deployer adds the record, the
  skipper and the notifier add nothing) and at a run with the accuracy \<open>0.7562\<close>.
\<close>

theorem deploy_info_writers_witness:
  "fst (snd (deploy_model example_config ''deploy_model'' ''2025-01-01T00:00:00''
               evaluated_store)) = deployed_store
   \<and> fst (snd (skip_deploy example_config evaluated_store)) = evaluated_store
   \<and> fst (snd (callable example_config skip_env notify evaluated_store))
        (''deploy_model'', ''deploy_info'') = None
   \<and> store (dag_run example_config skip_env) (''deploy_model'', ''deploy_info'') = None"
  using deploy_info_writers
          [where st = evaluated_store and a = "PFloat (fl (92 / 100))"
             and f = "PFloat (fl (865 / 1000))" and cfg = example_config
             and ti = "''deploy_model''" and now = "''2025-01-01T00:00:00''" and t = notify
             and ev = skip_env and tid = "''deploy_model''"]
        skip_env_accuracy
  by (simp add: evaluated_store_metrics example_metrics_def deployed_store_def
        xcom_push_def example_config_def)
     (simp add: evaluated_store_def xcom_push_def)

end
